theory Spec2Isabelle
  imports Complex_Main
begin

section \<open>Python values and exceptions\<close>

text \<open>
  The exceptions that the network code of \<^verbatim>\<open>nnUNetTrainerMedNeXt.py\<close> can raise.
  A call that raises is a result \<open>Inl e\<close>; a call that returns \<open>v\<close> is \<open>Inr v\<close>.
  \<open>NameError\<close> also stands for its subclass UnboundLocalError.
\<close>

datatype error =
    AttributeError
  | AssertionError
  | ValueError
  | RuntimeError
  | IndexError
  | NameError
  | TypeError
  | ZeroDivisionError
  | NotImplementedError

text \<open>
  What a forward method hands back: one tensor, or a Python list of tensors.
\<close>

datatype 'a pyret = Single 'a | Multi "'a list"

text \<open>Python's \<^verbatim>\<open>xs[i]\<close> for a non-negative index.\<close>

definition py_index :: "'a list \<Rightarrow> nat \<Rightarrow> error + 'a" where
  "py_index xs i = (if i < length xs then Inr (xs ! i) else Inl IndexError)"

text \<open>
  A list comprehension \<^verbatim>\<open>[e for i in range(n)]\<close> whose element expression \<open>e\<close> does
  not depend on \<open>i\<close>: the expression is evaluated \<open>n\<close> times, the first exception ends the
  comprehension, and no evaluation happens when \<open>n = 0\<close>.
\<close>

definition py_listcomp :: "nat \<Rightarrow> (error + 'a) \<Rightarrow> error + 'a list" where
  "py_listcomp n e =
     (if n = 0 then Inr []
      else case e of Inl err \<Rightarrow> Inl err | Inr v \<Rightarrow> Inr (replicate n v))"

text \<open>
  Sequencing: \<open>bindE m f\<close> runs \<open>m\<close>; when \<open>m\<close> raises, so does the whole, and
  otherwise \<open>f\<close> continues with the value of \<open>m\<close>.
\<close>

definition bindE :: "error + 'a \<Rightarrow> ('a \<Rightarrow> error + 'b) \<Rightarrow> error + 'b" where
  "bindE m f = (case m of Inl e \<Rightarrow> Inl e | Inr v \<Rightarrow> f v)"

text \<open>
  An attribute that a constructor may leave unassigned has an option type; reading it
  while it is unassigned raises AttributeError.
\<close>

definition getattr :: "'a option \<Rightarrow> error + 'a" where
  "getattr a = (case a of None \<Rightarrow> Inl AttributeError | Some v \<Rightarrow> Inr v)"

fun mapE :: "('a \<Rightarrow> error + 'b) \<Rightarrow> 'a list \<Rightarrow> error + 'b list" where
  "mapE f [] = Inr []"
| "mapE f (x # xs) = bindE (f x) (\<lambda>y. bindE (mapE f xs) (\<lambda>ys. Inr (y # ys)))"

section \<open>The layers of torch.nn that the code instantiates\<close>

text \<open>
  Sizes (channel counts, kernel sizes, strides, block counts, tensor extents) are natural
  numbers.  A convolution layer \<^verbatim>\<open>nn.Conv2d\<close>, \<^verbatim>\<open>nn.Conv3d\<close>, \<^verbatim>\<open>nn.ConvTranspose2d\<close>
  or \<^verbatim>\<open>nn.ConvTranspose3d\<close> is the record of its constructor arguments; \<open>ndim\<close> is the
  number of spatial axes (2 or 3) and \<open>transposed\<close> tells the two families apart.
\<close>

record conv_layer =
  transposed :: bool
  ndim :: nat
  c_in :: nat
  c_out :: nat
  ksize :: nat
  stride :: nat
  padding :: nat
  groups :: nat

text \<open>
  The constructor of every torch convolution rejects a non-positive group count and
  channel counts that the group count does not divide (ValueError).
\<close>

definition nn_Conv ::
  "bool \<Rightarrow> nat \<Rightarrow> nat \<Rightarrow> nat \<Rightarrow> nat \<Rightarrow> nat \<Rightarrow> nat \<Rightarrow> nat \<Rightarrow> error + conv_layer" where
  "nn_Conv tr d cin cout k s p g =
     (if g = 0 then Inl ValueError
      else if cin mod g = 0 \<and> cout mod g = 0 then
        Inr \<lparr>transposed = tr, ndim = d, c_in = cin, c_out = cout, ksize = k,
             stride = s, padding = p, groups = g\<rparr>
      else Inl ValueError)"

text \<open>
  The code picks the convolution class from the string \<open>dim\<close> (here \<open>dim_s\<close>):
  \<^verbatim>\<open>if dim == '2d': conv = nn.Conv2d elif dim == '3d': conv = nn.Conv3d\<close>.
  For any other string the local name \<open>conv\<close> stays unbound and its first use raises.
\<close>

definition conv_of_dim ::
  "bool \<Rightarrow> string \<Rightarrow> nat \<Rightarrow> nat \<Rightarrow> nat \<Rightarrow> nat \<Rightarrow> nat \<Rightarrow> nat \<Rightarrow> error + conv_layer" where
  "conv_of_dim tr dim_s cin cout k s p g =
     (if dim_s = ''2d'' then nn_Conv tr 2 cin cout k s p g
      else if dim_s = ''3d'' then nn_Conv tr 3 cin cout k s p g
      else Inl NameError)"

record group_norm =
  num_groups :: nat
  num_channels :: nat

text \<open>
  \<^verbatim>\<open>nn.GroupNorm(num_groups, num_channels)\<close> evaluates
  \<^verbatim>\<open>num_channels % num_groups != 0\<close> and raises ValueError when it holds.
\<close>

definition nn_GroupNorm :: "nat \<Rightarrow> nat \<Rightarrow> error + group_norm" where
  "nn_GroupNorm g c =
     (if g = 0 then Inl ZeroDivisionError
      else if c mod g = 0 then Inr \<lparr>num_groups = g, num_channels = c\<rparr>
      else Inl ValueError)"

section \<open>The tensor operations of torch, as an interface\<close>

text \<open>
  The code is written against the tensor operations of the torch library.  The record
  below lists the ones it calls; \<open>'a\<close> is the type of tensors.  Every forward
  function of this theory takes such a record, so a statement proved for all of them
  holds for every behaviour of the library, and two instances are given further down:
  tensors as shapes, and tensors as shapes with floating-point entries.

  Calling a convolution layer takes the name of the attribute that holds the layer
  (\<open>conv1\<close>, \<open>conv2\<close>, \<open>conv3\<close>, \<open>res_conv\<close>, \<open>conv_out\<close>, \<open>stem\<close>) besides the layer:
  what the call computes is a function of that name, of the constructor arguments of
  the layer and of the tensor, so the layers of one module carry weights of their own
  even when their constructor arguments coincide.  Two modules built from equal
  arguments (such as the repetitions of a block within a stage) are not told apart; no
  statement below compares two of them.

  \<^item> \<open>t_conv a c x\<close>: calling the convolution layer \<open>c\<close> held in attribute \<open>a\<close>;
  \<^item> \<open>t_group_norm\<close>: calling a \<^verbatim>\<open>nn.GroupNorm\<close> layer;
  \<^item> \<open>t_gelu\<close>: calling \<^verbatim>\<open>nn.GELU()\<close>;
  \<^item> \<open>t_zeros\<close>, \<open>t_ones\<close>: \<^verbatim>\<open>torch.zeros(shape)\<close>, \<^verbatim>\<open>torch.ones(shape)\<close>;
  \<^item> \<open>t_norm k x\<close>: \<^verbatim>\<open>torch.norm(x, p=2, dim=(-k, ..., -1), keepdim=True)\<close>;
  \<^item> \<open>t_mean1 x\<close>: \<^verbatim>\<open>x.mean(1, keepdim=True)\<close>;
  \<^item> \<open>t_add_scalar x r\<close>: \<^verbatim>\<open>x + r\<close> for a Python float \<open>r\<close>;
  \<^item> \<open>t_add\<close>, \<open>t_sub\<close>, \<open>t_mul\<close>, \<open>t_div\<close>: the broadcasting binary operators;
  \<^item> \<open>t_pow x n\<close>: \<^verbatim>\<open>x.pow(n)\<close>; \<open>t_sqrt\<close>: \<^verbatim>\<open>torch.sqrt\<close>;
  \<^item> \<open>t_pad p x\<close>: \<^verbatim>\<open>torch.nn.functional.pad(x, p)\<close> for a tuple \<open>p\<close> of amounts,
    in the default mode (constant, value 0);
  \<^item> \<open>t_layer_norm c w b eps x\<close>: \<^verbatim>\<open>F.layer_norm(x, (c,), w, b, eps)\<close>;
  \<^item> \<open>t_index_none3 w\<close>: \<^verbatim>\<open>w[:, None, None, None]\<close>;
  \<^item> \<open>t_unbind x\<close>: iterating over a tensor (as tuple unpacking does), which yields
    its slices along axis 0.
\<close>

record 'a torch =
  t_conv :: "string \<Rightarrow> conv_layer \<Rightarrow> 'a \<Rightarrow> error + 'a"
  t_group_norm :: "group_norm \<Rightarrow> 'a \<Rightarrow> error + 'a"
  t_gelu :: "'a \<Rightarrow> 'a"
  t_zeros :: "nat list \<Rightarrow> 'a"
  t_ones :: "nat list \<Rightarrow> 'a"
  t_norm :: "nat \<Rightarrow> 'a \<Rightarrow> error + 'a"
  t_mean1 :: "'a \<Rightarrow> error + 'a"
  t_add_scalar :: "'a \<Rightarrow> real \<Rightarrow> 'a"
  t_add :: "'a \<Rightarrow> 'a \<Rightarrow> error + 'a"
  t_sub :: "'a \<Rightarrow> 'a \<Rightarrow> error + 'a"
  t_mul :: "'a \<Rightarrow> 'a \<Rightarrow> error + 'a"
  t_div :: "'a \<Rightarrow> 'a \<Rightarrow> error + 'a"
  t_pow :: "'a \<Rightarrow> nat \<Rightarrow> 'a"
  t_sqrt :: "'a \<Rightarrow> 'a"
  t_pad :: "nat list \<Rightarrow> 'a \<Rightarrow> error + 'a"
  t_layer_norm :: "nat \<Rightarrow> 'a \<Rightarrow> 'a \<Rightarrow> real \<Rightarrow> 'a \<Rightarrow> error + 'a"
  t_index_none3 :: "'a \<Rightarrow> error + 'a"
  t_unbind :: "'a \<Rightarrow> error + 'a list"

section \<open>Tensors as shapes\<close>

text \<open>
  The first instance keeps of a tensor its shape only, a list of extents.  The shape
  rules are those of the torch documentation.

  One convolution axis: \<open>\<lfloor>(i + 2p - k) / s\<rfloor> + 1\<close> for a convolution and
  \<open>(i - 1) s - 2p + k\<close> for a transposed convolution (dilation 1, no output padding).
  An empty axis is rejected.
\<close>

definition conv_axis :: "conv_layer \<Rightarrow> nat \<Rightarrow> error + nat" where
  "conv_axis c i =
     (if i = 0 \<or> ksize c = 0 \<or> stride c = 0 then Inl RuntimeError
      else if transposed c then
        (if (i - 1) * stride c + ksize c \<le> 2 * padding c then Inl RuntimeError
         else Inr ((i - 1) * stride c + ksize c - 2 * padding c))
      else
        (if i + 2 * padding c < ksize c then Inl RuntimeError
         else Inr ((i + 2 * padding c - ksize c) div stride c + 1)))"

text \<open>
  Calling a convolution layer.  The input is batched, \<open>(N, C, spatial...)\<close>, or
  unbatched, \<open>(C, spatial...)\<close>, with \<open>C\<close> the input channel count of the layer; the
  output has the output channel count in its place.  A layer with no input channels or
  no output channels can be constructed, but calling it raises RuntimeError.
\<close>

definition shape_conv :: "conv_layer \<Rightarrow> nat list \<Rightarrow> error + nat list" where
  "shape_conv c s =
     (if c_in c = 0 \<or> c_out c = 0 then Inl RuntimeError
      else if length s = ndim c + 2 \<and> hd (tl s) = c_in c then
        bindE (mapE (conv_axis c) (drop 2 s)) (\<lambda>sp'. Inr (hd s # c_out c # sp'))
      else if length s = ndim c + 1 \<and> hd s = c_in c then
        bindE (mapE (conv_axis c) (tl s)) (\<lambda>sp'. Inr (c_out c # sp'))
      else Inl RuntimeError)"

text \<open>
  \<^verbatim>\<open>F.group_norm\<close> wants at least two axes, the channel axis as wide as the layer's
  weight, and more than one value per group: it raises ValueError when
  \<open>(N * C // num_groups) * prod(spatial) = 1\<close>.
\<close>

fun shape_group_norm :: "group_norm \<Rightarrow> nat list \<Rightarrow> error + nat list" where
  "shape_group_norm g (n # ch # sp) =
     (if n * ch div num_groups g * prod_list sp = 1 then Inl ValueError
      else if ch = num_channels g then Inr (n # ch # sp)
      else Inl RuntimeError)"
| "shape_group_norm g s = Inl RuntimeError"

text \<open>
  Broadcasting: the shapes are aligned at their last axes; two extents are compatible
  when they are equal or one of them is 1.
\<close>

fun bcast_rev :: "nat list \<Rightarrow> nat list \<Rightarrow> nat list option" where
  "bcast_rev [] ys = Some ys"
| "bcast_rev (x # xs) [] = Some (x # xs)"
| "bcast_rev (x # xs) (y # ys) =
     (if x = y \<or> y = 1 then map_option ((#) x) (bcast_rev xs ys)
      else if x = 1 then map_option ((#) y) (bcast_rev xs ys)
      else None)"

definition broadcast_shapes :: "nat list \<Rightarrow> nat list \<Rightarrow> error + nat list" where
  "broadcast_shapes a b =
     (case bcast_rev (rev a) (rev b) of None \<Rightarrow> Inl RuntimeError | Some r \<Rightarrow> Inr (rev r))"

text \<open>Reducing the last \<open>k\<close> axes with \<^verbatim>\<open>keepdim=True\<close> leaves extent 1 on each.\<close>

definition shape_norm :: "nat \<Rightarrow> nat list \<Rightarrow> error + nat list" where
  "shape_norm k s =
     (if k \<le> length s then Inr (take (length s - k) s @ replicate k 1)
      else Inl IndexError)"

definition shape_mean1 :: "nat list \<Rightarrow> error + nat list" where
  "shape_mean1 s = (if 2 \<le> length s then Inr (s[1 := 1]) else Inl IndexError)"

text \<open>
  \<^verbatim>\<open>F.pad(x, p)\<close>: the tuple \<open>p\<close> is read in pairs, and the pairs go from the last axis
  backwards: \<open>(p\<^sub>0, p\<^sub>1)\<close> are the amounts added in front of and behind the last axis,
  \<open>(p\<^sub>2, p\<^sub>3)\<close> those of the axis before it, and so on.  A tuple of odd length, or with
  more pairs than the tensor has axes, raises RuntimeError.
\<close>

fun pad_pairs :: "nat list \<Rightarrow> (nat \<times> nat) list option" where
  "pad_pairs [] = Some []"
| "pad_pairs [l] = None"
| "pad_pairs (l # r # p) = map_option ((#) (l, r)) (pad_pairs p)"

text \<open>The padded extents, on the reversed shape.\<close>

fun pad_rev :: "(nat \<times> nat) list \<Rightarrow> nat list \<Rightarrow> nat list option" where
  "pad_rev [] es = Some es"
| "pad_rev ((l, r) # ps) [] = None"
| "pad_rev ((l, r) # ps) (e # es) = map_option ((#) (l + e + r)) (pad_rev ps es)"

definition shape_pad :: "nat list \<Rightarrow> nat list \<Rightarrow> error + nat list" where
  "shape_pad p s =
     (case pad_pairs p of
        None \<Rightarrow> Inl RuntimeError
      | Some ps \<Rightarrow>
          (case pad_rev ps (rev s) of None \<Rightarrow> Inl RuntimeError | Some r \<Rightarrow> Inr (rev r)))"

text \<open>\<^verbatim>\<open>F.layer_norm(x, (c,), ...)\<close> wants the last axis of \<open>x\<close> to have extent \<open>c\<close>.\<close>

definition shape_layer_norm ::
  "nat \<Rightarrow> nat list \<Rightarrow> nat list \<Rightarrow> real \<Rightarrow> nat list \<Rightarrow> error + nat list" where
  "shape_layer_norm c w b eps s =
     (case rev s of [] \<Rightarrow> Inl RuntimeError
      | l # _ \<Rightarrow> if l = c then Inr s else Inl RuntimeError)"

text \<open>
  \<^verbatim>\<open>w[:, None, None, None]\<close> slices the first axis whole and inserts three axes of
  extent 1 after it; a tensor without axes cannot be sliced.
\<close>

fun shape_index_none3 :: "nat list \<Rightarrow> error + nat list" where
  "shape_index_none3 [] = Inl IndexError"
| "shape_index_none3 (c # rest) = Inr (c # 1 # 1 # 1 # rest)"

fun shape_unbind :: "nat list \<Rightarrow> error + nat list list" where
  "shape_unbind [] = Inl TypeError"
| "shape_unbind (n # rest) = Inr (replicate n rest)"

definition shape_torch :: "nat list torch" where
  "shape_torch =
     \<lparr>t_conv = (\<lambda>a. shape_conv),
      t_group_norm = shape_group_norm,
      t_gelu = (\<lambda>s. s),
      t_zeros = (\<lambda>s. s),
      t_ones = (\<lambda>s. s),
      t_norm = shape_norm,
      t_mean1 = shape_mean1,
      t_add_scalar = (\<lambda>s r. s),
      t_add = broadcast_shapes,
      t_sub = broadcast_shapes,
      t_mul = broadcast_shapes,
      t_div = broadcast_shapes,
      t_pow = (\<lambda>s n. s),
      t_sqrt = (\<lambda>s. s),
      t_pad = shape_pad,
      t_layer_norm = shape_layer_norm,
      t_index_none3 = shape_index_none3,
      t_unbind = shape_unbind\<rparr>"

section \<open>Tensors with floating-point entries\<close>

text \<open>
  The second instance gives a tensor its entries as well.  An entry is a finite real
  number or one of the special values of IEEE 754 arithmetic: \<open>+inf\<close>, \<open>-inf\<close>, NaN.
  The operations follow IEEE 754 on the special values: NaN propagates; \<open>inf - inf\<close>,
  \<open>0 * inf\<close>, \<open>inf / inf\<close> and \<open>0 / 0\<close> are NaN; \<open>x / 0\<close> is an infinity for \<open>x \<noteq> 0\<close>;
  and a finite result beyond the largest finite number of the format overflows to an
  infinity.  The format is float32, the default dtype of torch.  Not modelled: the
  rounding of finite results, underflow, and the sign of zero (the two zeros are one
  value here).  In a tensor that the library computes, every finite entry lies within
  the range of the format; \<open>to_float\<close> brings a value into that range.
\<close>

datatype fl = Fin real | PInf | NInf | NaN

fun is_fin :: "fl \<Rightarrow> bool" where
  "is_fin (Fin r) = True"
| "is_fin v = False"

definition float_max :: real where
  "float_max = (2 - 1 / 2 ^ 23) * 2 ^ 127"

definition ovf :: "real \<Rightarrow> fl" where
  "ovf r = (if float_max < r then PInf else if r < - float_max then NInf else Fin r)"

fun to_float :: "fl \<Rightarrow> fl" where
  "to_float (Fin r) = ovf r"
| "to_float v = v"

fun fl_neg :: "fl \<Rightarrow> fl" where
  "fl_neg (Fin a) = Fin (- a)"
| "fl_neg PInf = NInf"
| "fl_neg NInf = PInf"
| "fl_neg NaN = NaN"

fun fl_add :: "fl \<Rightarrow> fl \<Rightarrow> fl" where
  "fl_add (Fin a) (Fin b) = ovf (a + b)"
| "fl_add NaN y = NaN"
| "fl_add x NaN = NaN"
| "fl_add PInf NInf = NaN"
| "fl_add NInf PInf = NaN"
| "fl_add PInf y = PInf"
| "fl_add x PInf = PInf"
| "fl_add NInf y = NInf"
| "fl_add x NInf = NInf"

definition fl_sub :: "fl \<Rightarrow> fl \<Rightarrow> fl" where
  "fl_sub x y = fl_add x (fl_neg y)"

fun fl_mul :: "fl \<Rightarrow> fl \<Rightarrow> fl" where
  "fl_mul (Fin a) (Fin b) = ovf (a * b)"
| "fl_mul NaN y = NaN"
| "fl_mul x NaN = NaN"
| "fl_mul (Fin a) y = (if a = 0 then NaN else if 0 < a then y else fl_neg y)"
| "fl_mul x (Fin b) = (if b = 0 then NaN else if 0 < b then x else fl_neg x)"
| "fl_mul PInf y = y"
| "fl_mul NInf y = fl_neg y"

fun fl_div :: "fl \<Rightarrow> fl \<Rightarrow> fl" where
  "fl_div (Fin a) (Fin b) =
     (if b = 0 then (if a = 0 then NaN else if 0 < a then PInf else NInf) else ovf (a / b))"
| "fl_div NaN y = NaN"
| "fl_div x NaN = NaN"
| "fl_div (Fin a) y = Fin 0"
| "fl_div x (Fin b) = (if 0 \<le> b then x else fl_neg x)"
| "fl_div x y = NaN"

fun fl_sqrt :: "fl \<Rightarrow> fl" where
  "fl_sqrt (Fin a) = (if a < 0 then NaN else Fin (sqrt a))"
| "fl_sqrt PInf = PInf"
| "fl_sqrt NInf = NaN"
| "fl_sqrt NaN = NaN"

primrec fl_pow :: "fl \<Rightarrow> nat \<Rightarrow> fl" where
  "fl_pow v 0 = Fin 1"
| "fl_pow v (Suc n) = fl_mul v (fl_pow v n)"

definition fl_sum :: "fl list \<Rightarrow> fl" where
  "fl_sum vs = foldr fl_add vs (Fin 0)"

text \<open>
  A tensor is a shape and a function from multi-indices to entries.  It is determined
  by its entries at the indices within its shape; \<open>mk\<close> sets every other entry to 0.
\<close>

record vtensor =
  shape :: "nat list"
  elems :: "nat list \<Rightarrow> fl"

definition valid_index :: "nat list \<Rightarrow> nat list \<Rightarrow> bool" where
  "valid_index s i = list_all2 (<) i s"

definition mk :: "nat list \<Rightarrow> (nat list \<Rightarrow> fl) \<Rightarrow> vtensor" where
  "mk s f = \<lparr>shape = s, elems = (\<lambda>i. if valid_index s i then f i else Fin 0)\<rparr>"

text \<open>
  Broadcasting an operand of shape \<open>s\<close>: the entry used at index \<open>i\<close> of the result is
  the one at the last \<open>length s\<close> components of \<open>i\<close>, with 0 on each axis of extent 1.
\<close>

definition bidx :: "nat list \<Rightarrow> nat list \<Rightarrow> nat list" where
  "bidx s i = map2 (\<lambda>e k. if e = 1 then 0 else k) s (drop (length i - length s) i)"

definition ew1 :: "(fl \<Rightarrow> fl) \<Rightarrow> vtensor \<Rightarrow> vtensor" where
  "ew1 f a = mk (shape a) (\<lambda>i. f (elems a i))"

definition ew2 :: "(fl \<Rightarrow> fl \<Rightarrow> fl) \<Rightarrow> vtensor \<Rightarrow> vtensor \<Rightarrow> error + vtensor" where
  "ew2 f a b =
     bindE (broadcast_shapes (shape a) (shape b))
       (\<lambda>s. Inr (mk s (\<lambda>i. f (elems a (bidx (shape a) i)) (elems b (bidx (shape b) i)))))"

text \<open>All multi-indices within a shape.\<close>

fun indices :: "nat list \<Rightarrow> nat list list" where
  "indices [] = [[]]"
| "indices (n # ns) = concat (map (\<lambda>i. map ((#) i) (indices ns)) [0..<n])"

text \<open>A tensor without an infinity or a NaN among its entries.\<close>

definition all_finite :: "vtensor \<Rightarrow> bool" where
  "all_finite x = list_all (\<lambda>i. is_fin (elems x i)) (indices (shape x))"

text \<open>
  The 2-norm over the last \<open>k\<close> axes is the square root of the sum of the squares, and
  the mean over axis 1 is the sum divided by the extent, all in the arithmetic above.
\<close>

definition val_norm :: "nat \<Rightarrow> vtensor \<Rightarrow> error + vtensor" where
  "val_norm k x =
     bindE (shape_norm k (shape x))
       (\<lambda>s. Inr (mk s (\<lambda>i. fl_sqrt (fl_sum
                 (map (\<lambda>j. fl_mul (elems x (take (length s - k) i @ j))
                                   (elems x (take (length s - k) i @ j)))
                      (indices (drop (length s - k) (shape x))))))))"

definition val_mean1 :: "vtensor \<Rightarrow> error + vtensor" where
  "val_mean1 x =
     bindE (shape_mean1 (shape x))
       (\<lambda>s. Inr (mk s (\<lambda>i. fl_div (fl_sum (map (\<lambda>c. elems x (i[1 := c])) [0..<shape x ! 1]))
                                   (Fin (real (shape x ! 1))))))"

text \<open>
  The entry of \<^verbatim>\<open>F.pad(x, p)\<close> at an index: on each padded axis with amounts \<open>(l, r)\<close>
  and extent \<open>e\<close>, the positions \<open>l, ..., l + e - 1\<close> hold the entries of \<open>x\<close> and all
  others hold 0.  \<open>pad_src\<close> works on the reversed index and gives the (reversed) index
  into \<open>x\<close>, or \<open>None\<close> in the padding.
\<close>

fun pad_src :: "(nat \<times> nat) list \<Rightarrow> nat list \<Rightarrow> nat list \<Rightarrow> nat list option" where
  "pad_src [] es ks = Some ks"
| "pad_src ((l, r) # ps) (e # es) (k # ks) =
     (if l \<le> k \<and> k < l + e then map_option ((#) (k - l)) (pad_src ps es ks) else None)"
| "pad_src ((l, r) # ps) es ks = None"

definition val_pad :: "nat list \<Rightarrow> vtensor \<Rightarrow> error + vtensor" where
  "val_pad p x =
     bindE (shape_pad p (shape x))
       (\<lambda>s. Inr (mk s (\<lambda>i. case pad_pairs p of
                             None \<Rightarrow> Fin 0
                           | Some ps \<Rightarrow>
                               (case pad_src ps (rev (shape x)) (rev i) of
                                  None \<Rightarrow> Fin 0
                                | Some j \<Rightarrow> elems x (rev j)))))"

definition val_index_none3 :: "vtensor \<Rightarrow> error + vtensor" where
  "val_index_none3 w =
     bindE (shape_index_none3 (shape w))
       (\<lambda>s. Inr (mk s (\<lambda>i. elems w (take 1 i @ drop 4 i))))"

definition val_unbind :: "vtensor \<Rightarrow> error + vtensor list" where
  "val_unbind x =
     bindE (shape_unbind (shape x))
       (\<lambda>ss. Inr (map (\<lambda>j. mk (tl (shape x)) (\<lambda>i. elems x (j # i))) [0..<length ss]))"

text \<open>
  The entries that the layers of the library compute (convolutions with their weights,
  group normalisation, \<^verbatim>\<open>F.layer_norm\<close>) and the scalar function of GELU are left open:
  \<open>val_torch V\<close> is a model of the library for every choice \<open>V\<close> of them, brought
  into the range of the format.  The shapes of their results are those of the first
  instance.
\<close>

record layer_values =
  conv_v :: "string \<Rightarrow> conv_layer \<Rightarrow> vtensor \<Rightarrow> nat list \<Rightarrow> fl"
  group_norm_v :: "group_norm \<Rightarrow> vtensor \<Rightarrow> nat list \<Rightarrow> fl"
  layer_norm_v :: "nat \<Rightarrow> vtensor \<Rightarrow> vtensor \<Rightarrow> real \<Rightarrow> vtensor \<Rightarrow> nat list \<Rightarrow> fl"
  gelu_v :: "fl \<Rightarrow> fl"

definition val_torch :: "layer_values \<Rightarrow> vtensor torch" where
  "val_torch V =
     \<lparr>t_conv =
        (\<lambda>a c x. bindE (shape_conv c (shape x))
                   (\<lambda>s. Inr (mk s (\<lambda>i. to_float (conv_v V a c x i))))),
      t_group_norm =
        (\<lambda>g x. bindE (shape_group_norm g (shape x))
                 (\<lambda>s. Inr (mk s (\<lambda>i. to_float (group_norm_v V g x i))))),
      t_gelu = ew1 (\<lambda>v. to_float (gelu_v V v)),
      t_zeros = (\<lambda>s. mk s (\<lambda>i. Fin 0)),
      t_ones = (\<lambda>s. mk s (\<lambda>i. Fin 1)),
      t_norm = val_norm,
      t_mean1 = val_mean1,
      t_add_scalar = (\<lambda>x r. ew1 (\<lambda>v. fl_add v (Fin r)) x),
      t_add = ew2 fl_add,
      t_sub = ew2 fl_sub,
      t_mul = ew2 fl_mul,
      t_div = ew2 fl_div,
      t_pow = (\<lambda>x n. ew1 (\<lambda>v. fl_pow v n) x),
      t_sqrt = ew1 fl_sqrt,
      t_pad = val_pad,
      t_layer_norm =
        (\<lambda>c w b e x. bindE (shape_layer_norm c (shape w) (shape b) e (shape x))
                       (\<lambda>s. Inr (mk s (\<lambda>i. to_float (layer_norm_v V c w b e x i))))),
      t_index_none3 = val_index_none3,
      t_unbind = val_unbind\<rparr>"


text \<open>
  Two choices of the open entries, for runs on concrete tensors.  In the first every
  convolution returns 1 and group normalisation returns 2.  In the second the
  convolutions \<open>conv1\<close> and \<open>conv2\<close> return the large value \<open>3 * 10\<^sup>3\<^sup>8\<close>, which is
  below the largest float32 (as zero weights and a bias of that size do), \<open>conv3\<close>
  returns its input (a one-channel pointwise convolution with weight 1 and bias 0) and
  group normalisation returns 1.  GELU is taken as the identity on the values that
  occur.
\<close>

definition unit_values :: layer_values where
  "unit_values = \<lparr>conv_v = (\<lambda>a c x i. Fin 1), group_norm_v = (\<lambda>g x i. Fin 2),
          layer_norm_v = (\<lambda>c w b e x i. Fin 0), gelu_v = (\<lambda>v. v)\<rparr>"

definition big_value :: real where
  "big_value = 3 * 10 ^ 38"

definition big_values :: layer_values where
  "big_values = \<lparr>conv_v = (\<lambda>a c x i. if a = ''conv3'' then elems x i else Fin big_value),
            group_norm_v = (\<lambda>g x i. Fin 1),
            layer_norm_v = (\<lambda>c w b e x i. Fin 0), gelu_v = (\<lambda>v. v)\<rparr>"

section \<open>LayerNorm\<close>

record 'a LayerNorm =
  weight :: 'a
  bias :: 'a
  eps :: real
  data_format :: string
  normalized_shape :: nat

text \<open>
  \<^verbatim>\<open>LayerNorm.__init__(normalized_shape, eps=1e-5, data_format="channels_last")\<close>.
\<close>

definition LayerNorm_init :: "'a torch \<Rightarrow> nat \<Rightarrow> real \<Rightarrow> string \<Rightarrow> error + 'a LayerNorm" where
  "LayerNorm_init T nshape e fmt =
     (if fmt = ''channels_last'' \<or> fmt = ''channels_first'' then
        Inr \<lparr>weight = t_ones T [nshape], bias = t_zeros T [nshape], eps = e,
             data_format = fmt, normalized_shape = nshape\<rparr>
      else Inl NotImplementedError)"

text \<open>
  \<^verbatim>\<open>LayerNorm.forward\<close>.  With a data format that is neither of the two, the method
  falls off its end and returns Python's \<open>None\<close>: the result \<open>Inr None\<close>.
\<close>

definition LayerNorm_forward :: "'a torch \<Rightarrow> 'a LayerNorm \<Rightarrow> 'a \<Rightarrow> error + 'a option" where
  "LayerNorm_forward T lnm x =
     (if data_format lnm = ''channels_last'' then
        bindE (t_layer_norm T (normalized_shape lnm) (weight lnm) (bias lnm) (eps lnm) x)
          (\<lambda>y. Inr (Some y))
      else if data_format lnm = ''channels_first'' then
        bindE (t_mean1 T x) (\<lambda>u.
        bindE (t_sub T x u) (\<lambda>d.
        bindE (t_mean1 T (t_pow T d 2)) (\<lambda>s.
        bindE (t_sub T x u) (\<lambda>d'.
        bindE (t_div T d' (t_sqrt T (t_add_scalar T s (eps lnm)))) (\<lambda>xn.
        bindE (t_index_none3 T (weight lnm)) (\<lambda>w.
        bindE (t_mul T w xn) (\<lambda>wx.
        bindE (t_index_none3 T (bias lnm)) (\<lambda>b.
        bindE (t_add T wx b) (\<lambda>y. Inr (Some y))))))))))
      else Inr None)"

section \<open>MedNeXtBlock\<close>

text \<open>
  The attribute \<open>norm\<close> of a block (here \<open>norm_l\<close>) holds a \<^verbatim>\<open>nn.GroupNorm\<close> or a
  \<^verbatim>\<open>LayerNorm\<close>.
\<close>

datatype 'a norm_layer = NormGroup group_norm | NormLayer "'a LayerNorm"

record 'a MedNeXtBlock =
  do_res :: bool
  dim_s :: string
  conv1 :: conv_layer
  norm_l :: "'a norm_layer option"
  conv2 :: conv_layer
  conv3 :: conv_layer
  grn :: bool
  grn_beta :: "'a option"
  grn_gamma :: "'a option"

text \<open>
  \<^verbatim>\<open>MedNeXtBlock.__init__(in_channels, out_channels, exp_r, kernel_size, do_res,
  norm_type, n_groups, dim, grn)\<close>.  The chain \<^verbatim>\<open>if norm_type == 'group': ... elif
  norm_type == 'layer': ...\<close> has no \<^verbatim>\<open>else\<close>: any other string assigns nothing.
\<close>

definition block_norm :: "'a torch \<Rightarrow> string \<Rightarrow> nat \<Rightarrow> error + 'a norm_layer option" where
  "block_norm T norm_type in_channels =
     (if norm_type = ''group'' then
        bindE (nn_GroupNorm in_channels in_channels) (\<lambda>l. Inr (Some (NormGroup l)))
      else if norm_type = ''layer'' then
        bindE (LayerNorm_init T in_channels (1 / 100000) ''channels_first'')
          (\<lambda>l. Inr (Some (NormLayer l)))
      else Inr None)"

text \<open>
  The recalibration parameters: \<^verbatim>\<open>torch.zeros(1, exp_r * in_channels, 1, 1, 1)\<close> for
  \<open>'3d'\<close>, \<^verbatim>\<open>torch.zeros(1, exp_r * in_channels, 1, 1)\<close> for \<open>'2d'\<close>, assigned only
  under \<^verbatim>\<open>if grn:\<close>.
\<close>

definition grn_param :: "'a torch \<Rightarrow> bool \<Rightarrow> string \<Rightarrow> nat \<Rightarrow> 'a option" where
  "grn_param T g dm width =
     (if g then
        (if dm = ''3d'' then Some (t_zeros T [1, width, 1, 1, 1])
         else if dm = ''2d'' then Some (t_zeros T [1, width, 1, 1])
         else None)
      else None)"

definition MedNeXtBlock_init ::
  "'a torch \<Rightarrow> nat \<Rightarrow> nat \<Rightarrow> nat \<Rightarrow> nat \<Rightarrow> bool \<Rightarrow> string \<Rightarrow> nat option \<Rightarrow> string \<Rightarrow> bool
     \<Rightarrow> error + 'a MedNeXtBlock" where
  "MedNeXtBlock_init T in_channels out_channels exp_r kernel_size res norm_type n_groups dm g =
     (if dm = ''2d'' \<or> dm = ''3d'' then
        bindE (conv_of_dim False dm in_channels in_channels kernel_size 1 (kernel_size div 2)
                 (case n_groups of None \<Rightarrow> in_channels | Some ng \<Rightarrow> ng)) (\<lambda>c1.
        bindE (block_norm T norm_type in_channels) (\<lambda>nl.
        bindE (conv_of_dim False dm in_channels (exp_r * in_channels) 1 1 0 1) (\<lambda>c2.
        bindE (conv_of_dim False dm (exp_r * in_channels) out_channels 1 1 0 1) (\<lambda>c3.
        Inr \<lparr>do_res = res, dim_s = dm, conv1 = c1, norm_l = nl, conv2 = c2, conv3 = c3,
             grn = g,
             grn_beta = grn_param T g dm (exp_r * in_channels),
             grn_gamma = grn_param T g dm (exp_r * in_channels)\<rparr>))))
      else Inl AssertionError)"

text \<open>
  Calling \<open>self.norm\<close>.  A \<open>None\<close> coming back from \<^verbatim>\<open>LayerNorm.forward\<close> goes into
  \<open>self.conv2\<close>, which raises TypeError.
\<close>

definition norm_call :: "'a torch \<Rightarrow> 'a norm_layer \<Rightarrow> 'a \<Rightarrow> error + 'a" where
  "norm_call T nl x =
     (case nl of
        NormGroup g \<Rightarrow> t_group_norm T g x
      | NormLayer lnm \<Rightarrow>
          bindE (LayerNorm_forward T lnm x)
            (\<lambda>r. case r of None \<Rightarrow> Inl TypeError | Some y \<Rightarrow> Inr y))"

text \<open>
  \<^verbatim>\<open>MedNeXtBlock.forward\<close> is given in four parts.  The first is its opening,
  \<^verbatim>\<open>x1 = self.conv1(x1)\<close> and \<^verbatim>\<open>x1 = self.act(self.conv2(self.norm(x1)))\<close>: the
  expanded feature map.
\<close>

definition MedNeXtBlock_expand ::
  "'a torch \<Rightarrow> ('a, 'z) MedNeXtBlock_scheme \<Rightarrow> 'a \<Rightarrow> error + 'a" where
  "MedNeXtBlock_expand T b x =
     bindE (t_conv T ''conv1'' (conv1 b) x) (\<lambda>x1.
     bindE (getattr (norm_l b)) (\<lambda>nl.
     bindE (norm_call T nl x1) (\<lambda>x1.
     bindE (t_conv T ''conv2'' (conv2 b) x1) (\<lambda>x1.
     Inr (t_gelu T x1)))))"

text \<open>
  The recalibration lines (the body of \<^verbatim>\<open>if self.grn:\<close>).  First the norm ratio:
  \<^verbatim>\<open>gx = torch.norm(x1, p=2, dim=(-3, -2, -1), keepdim=True)\<close> (or the last two axes),
  \<^verbatim>\<open>nx = gx / (gx.mean(dim=1, keepdim=True) + 1e-6)\<close>.
\<close>

definition MedNeXtBlock_grn_ratio ::
  "'a torch \<Rightarrow> ('a, 'z) MedNeXtBlock_scheme \<Rightarrow> 'a \<Rightarrow> error + 'a" where
  "MedNeXtBlock_grn_ratio T b x1 =
     bindE (if dim_s b = ''3d'' then t_norm T 3 x1
            else if dim_s b = ''2d'' then t_norm T 2 x1
            else Inl NameError) (\<lambda>gx.
     bindE (t_mean1 T gx) (\<lambda>m.
     t_div T gx (t_add_scalar T m (1 / 1000000))))"

text \<open>
  Then \<^verbatim>\<open>x1 = self.grn_gamma * (x1 * nx) + self.grn_beta + x1\<close>.
\<close>

definition MedNeXtBlock_grn ::
  "'a torch \<Rightarrow> ('a, 'z) MedNeXtBlock_scheme \<Rightarrow> 'a \<Rightarrow> error + 'a" where
  "MedNeXtBlock_grn T b x1 =
     bindE (MedNeXtBlock_grn_ratio T b x1) (\<lambda>nx.
     bindE (getattr (grn_gamma b)) (\<lambda>gamma.
     bindE (t_mul T x1 nx) (\<lambda>xn.
     bindE (t_mul T gamma xn) (\<lambda>gxn.
     bindE (getattr (grn_beta b)) (\<lambda>beta.
     bindE (t_add T gxn beta) (\<lambda>gb.
     t_add T gb x1))))))"

text \<open>
  The whole method: the opening, the recalibration under \<^verbatim>\<open>if self.grn:\<close>, then
  \<^verbatim>\<open>x1 = self.conv3(x1)\<close> and \<^verbatim>\<open>if self.do_res: x1 = x + x1\<close>.
\<close>

definition MedNeXtBlock_forward ::
  "'a torch \<Rightarrow> ('a, 'z) MedNeXtBlock_scheme \<Rightarrow> 'a \<Rightarrow> error + 'a" where
  "MedNeXtBlock_forward T b x =
     bindE (MedNeXtBlock_expand T b x) (\<lambda>x1.
     bindE (if grn b then MedNeXtBlock_grn T b x1 else Inr x1) (\<lambda>x1.
     bindE (t_conv T ''conv3'' (conv3 b) x1) (\<lambda>x1.
     if do_res b then t_add T x x1 else Inr x1)))"

text \<open>\<^verbatim>\<open>nn.Sequential\<close> of blocks: each block is called on the output of the one before.\<close>

fun Sequential_forward :: "'a torch \<Rightarrow> 'a MedNeXtBlock list \<Rightarrow> 'a \<Rightarrow> error + 'a" where
  "Sequential_forward T [] x = Inr x"
| "Sequential_forward T (b # bs) x =
     bindE (MedNeXtBlock_forward T b x) (Sequential_forward T bs)"

section \<open>MedNeXtDownBlock and MedNeXtUpBlock\<close>

text \<open>
  Both classes extend MedNeXtBlock by the same two attributes, so one record extension
  serves both; which \<open>forward\<close> runs is decided by the class, that is by the attribute
  of the encoder or decoder that holds the block.
\<close>

record 'a MedNeXtResampleBlock = "'a MedNeXtBlock" +
  resample_do_res :: bool
  res_conv :: "conv_layer option"

definition MedNeXtDownBlock_init ::
  "'a torch \<Rightarrow> nat \<Rightarrow> nat \<Rightarrow> nat \<Rightarrow> nat \<Rightarrow> bool \<Rightarrow> string \<Rightarrow> string \<Rightarrow> bool
     \<Rightarrow> error + 'a MedNeXtResampleBlock" where
  "MedNeXtDownBlock_init T in_channels out_channels exp_r kernel_size res norm_type dm g =
     bindE (MedNeXtBlock_init T in_channels out_channels exp_r kernel_size False norm_type
              None dm g) (\<lambda>b.
     bindE (if res then
              bindE (conv_of_dim False dm in_channels out_channels 1 2 0 1) (\<lambda>c. Inr (Some c))
            else Inr None) (\<lambda>rc.
     bindE (conv_of_dim False dm in_channels in_channels kernel_size 2 (kernel_size div 2)
              in_channels) (\<lambda>c1.
     Inr \<lparr>do_res = do_res b, dim_s = dim_s b, conv1 = c1, norm_l = norm_l b, conv2 = conv2 b,
          conv3 = conv3 b, grn = grn b, grn_beta = grn_beta b, grn_gamma = grn_gamma b,
          resample_do_res = res, res_conv = rc\<rparr>)))"

definition MedNeXtDownBlock_forward ::
  "'a torch \<Rightarrow> 'a MedNeXtResampleBlock \<Rightarrow> 'a \<Rightarrow> error + 'a" where
  "MedNeXtDownBlock_forward T b x =
     bindE (MedNeXtBlock_forward T b x) (\<lambda>x1.
     if resample_do_res b then
       bindE (getattr (res_conv b)) (\<lambda>rc.
       bindE (t_conv T ''res_conv'' rc x) (\<lambda>res.
       t_add T x1 res))
     else Inr x1)"

definition MedNeXtUpBlock_init ::
  "'a torch \<Rightarrow> nat \<Rightarrow> nat \<Rightarrow> nat \<Rightarrow> nat \<Rightarrow> bool \<Rightarrow> string \<Rightarrow> string \<Rightarrow> bool
     \<Rightarrow> error + 'a MedNeXtResampleBlock" where
  "MedNeXtUpBlock_init T in_channels out_channels exp_r kernel_size res norm_type dm g =
     bindE (MedNeXtBlock_init T in_channels out_channels exp_r kernel_size False norm_type
              None dm g) (\<lambda>b.
     bindE (if res then
              bindE (conv_of_dim True dm in_channels out_channels 1 2 0 1) (\<lambda>c. Inr (Some c))
            else Inr None) (\<lambda>rc.
     bindE (conv_of_dim True dm in_channels in_channels kernel_size 2 (kernel_size div 2)
              in_channels) (\<lambda>c1.
     Inr \<lparr>do_res = do_res b, dim_s = dm, conv1 = c1, norm_l = norm_l b, conv2 = conv2 b,
          conv3 = conv3 b, grn = grn b, grn_beta = grn_beta b, grn_gamma = grn_gamma b,
          resample_do_res = res, res_conv = rc\<rparr>)))"

text \<open>
  The padding of \<^verbatim>\<open>MedNeXtUpBlock.forward\<close>: \<^verbatim>\<open>pad(x, (1, 0, 1, 0))\<close> for \<open>'2d'\<close>,
  \<^verbatim>\<open>pad(x, (1, 0, 1, 0, 1, 0))\<close> for \<open>'3d'\<close>, nothing otherwise.
\<close>

definition up_pad :: "'a torch \<Rightarrow> string \<Rightarrow> 'a \<Rightarrow> error + 'a" where
  "up_pad T dm x =
     (if dm = ''2d'' then t_pad T [1, 0, 1, 0] x
      else if dm = ''3d'' then t_pad T [1, 0, 1, 0, 1, 0] x
      else Inr x)"

definition MedNeXtUpBlock_forward ::
  "'a torch \<Rightarrow> 'a MedNeXtResampleBlock \<Rightarrow> 'a \<Rightarrow> error + 'a" where
  "MedNeXtUpBlock_forward T b x =
     bindE (MedNeXtBlock_forward T b x) (\<lambda>x1.
     bindE (up_pad T (dim_s b) x1) (\<lambda>x1.
     if resample_do_res b then
       bindE (getattr (res_conv b)) (\<lambda>rc.
       bindE (t_conv T ''res_conv'' rc x) (\<lambda>res.
       bindE (up_pad T (dim_s b) res) (\<lambda>res.
       t_add T x1 res)))
     else Inr x1))"

section \<open>OutBlock\<close>

record OutBlock =
  conv_out :: conv_layer

definition OutBlock_init :: "nat \<Rightarrow> nat \<Rightarrow> string \<Rightarrow> error + OutBlock" where
  "OutBlock_init in_channels n_classes dm =
     bindE (conv_of_dim True dm in_channels n_classes 1 1 0 1) (\<lambda>c. Inr \<lparr>conv_out = c\<rparr>)"

definition OutBlock_forward :: "'a torch \<Rightarrow> OutBlock \<Rightarrow> 'a \<Rightarrow> error + 'a" where
  "OutBlock_forward T ob x = t_conv T ''conv_out'' (conv_out ob) x"

section \<open>MedNeXtEncoder\<close>

text \<open>
  The argument \<open>exp_r\<close> is an int or a list of ints:
  \<^verbatim>\<open>if type(exp_r) == int: exp_r = [exp_r for i in range(len(block_counts))]\<close>.
\<close>

datatype exp_r_arg = ExpInt nat | ExpList "nat list"

definition exp_r_list :: "exp_r_arg \<Rightarrow> nat list \<Rightarrow> nat list" where
  "exp_r_list exp_r block_counts =
     (case exp_r of ExpInt n \<Rightarrow> replicate (length block_counts) n | ExpList l \<Rightarrow> l)"

text \<open>
  \<^verbatim>\<open>assert checkpoint_style in [None, 'outside_block']\<close> and
  \<^verbatim>\<open>assert dim in ['2d', '3d']\<close>.
\<close>

definition assert_checkpoint_style :: "string option \<Rightarrow> error + unit" where
  "assert_checkpoint_style cs =
     (if cs = None \<or> cs = Some ''outside_block'' then Inr () else Inl AssertionError)"

definition assert_dim :: "string \<Rightarrow> error + unit" where
  "assert_dim dm = (if dm = ''2d'' \<or> dm = ''3d'' then Inr () else Inl AssertionError)"

text \<open>
  \<^verbatim>\<open>if kernel_size is not None: enc_kernel_size = kernel_size\<close>: with \<open>None\<close> the local
  name stays unbound, and reading it raises.
\<close>

definition local_kernel_size :: "nat option \<Rightarrow> error + nat" where
  "local_kernel_size ks = (case ks of None \<Rightarrow> Inl NameError | Some k \<Rightarrow> Inr k)"

text \<open>
  One stage of residual blocks,
  \<^verbatim>\<open>nn.Sequential(*[MedNeXtBlock(in_channels=w, out_channels=w, exp_r=exp_r[j],
  kernel_size=..., do_res=do_res, norm_type=norm_type, dim=dim, grn=grn)
  for i in range(block_counts[i])])\<close>, at width \<open>w\<close>.
\<close>

definition block_sequence ::
  "'a torch \<Rightarrow> nat list \<Rightarrow> nat \<Rightarrow> nat list \<Rightarrow> nat \<Rightarrow> nat \<Rightarrow> nat option \<Rightarrow> bool \<Rightarrow> string
     \<Rightarrow> string \<Rightarrow> bool \<Rightarrow> error + 'a MedNeXtBlock list" where
  "block_sequence T block_counts i exp_r j w ks res norm_type dm g =
     bindE (py_index block_counts i) (\<lambda>cnt.
     py_listcomp cnt
       (bindE (py_index exp_r j) (\<lambda>er.
        bindE (local_kernel_size ks) (\<lambda>k.
        MedNeXtBlock_init T w w er k res norm_type None dm g))))"

record 'a MedNeXtEncoder =
  enc_inside_block_checkpointing :: bool
  enc_outside_block_checkpointing :: bool
  stem :: conv_layer
  enc_block_0 :: "'a MedNeXtBlock list"
  down_0 :: "'a MedNeXtResampleBlock"
  enc_block_1 :: "'a MedNeXtBlock list"
  down_1 :: "'a MedNeXtResampleBlock"
  enc_block_2 :: "'a MedNeXtBlock list"
  down_2 :: "'a MedNeXtResampleBlock"
  enc_block_3 :: "'a MedNeXtBlock list"
  down_3 :: "'a MedNeXtResampleBlock"
  return_skips :: "bool option"

text \<open>
  A down block of the encoder: the keyword arguments are evaluated in the order written,
  \<open>exp_r[j]\<close> before \<open>enc_kernel_size\<close>.
\<close>

definition enc_down ::
  "'a torch \<Rightarrow> nat \<Rightarrow> nat \<Rightarrow> nat list \<Rightarrow> nat \<Rightarrow> nat option \<Rightarrow> bool \<Rightarrow> string \<Rightarrow> string \<Rightarrow> bool
     \<Rightarrow> error + 'a MedNeXtResampleBlock" where
  "enc_down T cin cout exp_r j ks res norm_type dm g =
     bindE (py_index exp_r j) (\<lambda>er.
     bindE (local_kernel_size ks) (\<lambda>k.
     MedNeXtDownBlock_init T cin cout er k res norm_type dm g))"

text \<open>
  \<^verbatim>\<open>MedNeXtEncoder.__init__(in_channels, n_channels, exp_r, kernel_size, do_res,
  do_res_up_down, checkpoint_style, block_counts, norm_type, dim, grn)\<close>.
  The call that builds \<open>down_0\<close> passes no \<open>grn\<close>, so the default \<open>False\<close> applies there.
  No line of the constructor assigns \<open>return_skips\<close>.
\<close>

definition MedNeXtEncoder_init ::
  "'a torch \<Rightarrow> nat \<Rightarrow> nat \<Rightarrow> exp_r_arg \<Rightarrow> nat option \<Rightarrow> bool \<Rightarrow> bool \<Rightarrow> string option \<Rightarrow> nat list
     \<Rightarrow> string \<Rightarrow> string \<Rightarrow> bool \<Rightarrow> error + 'a MedNeXtEncoder" where
  "MedNeXtEncoder_init T in_channels n_channels exp_r kernel_size res do_res_up_down
       checkpoint_style block_counts norm_type dm g =
     bindE (assert_checkpoint_style checkpoint_style) (\<lambda>_.
     bindE (assert_dim dm) (\<lambda>_.
     bindE (conv_of_dim False dm in_channels n_channels 1 1 0 1) (\<lambda>st.
     bindE (Inr (exp_r_list exp_r block_counts)) (\<lambda>er.
     bindE (block_sequence T block_counts 0 er 0 n_channels kernel_size res norm_type dm g) (\<lambda>b0.
     bindE (enc_down T n_channels (2 * n_channels) er 1 kernel_size do_res_up_down norm_type dm
              False) (\<lambda>d0.
     bindE (block_sequence T block_counts 1 er 1 (n_channels * 2) kernel_size res norm_type dm g)
       (\<lambda>b1.
     bindE (enc_down T (2 * n_channels) (4 * n_channels) er 2 kernel_size do_res_up_down
              norm_type dm g) (\<lambda>d1.
     bindE (block_sequence T block_counts 2 er 2 (n_channels * 4) kernel_size res norm_type dm g)
       (\<lambda>b2.
     bindE (enc_down T (4 * n_channels) (8 * n_channels) er 3 kernel_size do_res_up_down
              norm_type dm g) (\<lambda>d2.
     bindE (block_sequence T block_counts 3 er 3 (n_channels * 8) kernel_size res norm_type dm g)
       (\<lambda>b3.
     bindE (enc_down T (8 * n_channels) (16 * n_channels) er 4 kernel_size do_res_up_down
              norm_type dm g) (\<lambda>d3.
     Inr \<lparr>enc_inside_block_checkpointing = False,
          enc_outside_block_checkpointing = (checkpoint_style = Some ''outside_block''),
          stem = st, enc_block_0 = b0, down_0 = d0, enc_block_1 = b1, down_1 = d1,
          enc_block_2 = b2, down_2 = d2, enc_block_3 = b3, down_3 = d3,
          return_skips = None\<rparr>))))))))))))"

text \<open>
  \<^verbatim>\<open>MedNeXtEncoder.forward\<close>: the list \<open>ret\<close> collects the outputs of the four stages
  and of the last down block; then \<^verbatim>\<open>if self.return_skips: return ret
  else: return ret[-1]\<close>.
\<close>

definition MedNeXtEncoder_forward ::
  "'a torch \<Rightarrow> 'a MedNeXtEncoder \<Rightarrow> 'a \<Rightarrow> error + 'a pyret" where
  "MedNeXtEncoder_forward T enc x =
     bindE (t_conv T ''stem'' (stem enc) x) (\<lambda>x.
     bindE (Sequential_forward T (enc_block_0 enc) x) (\<lambda>x0.
     bindE (MedNeXtDownBlock_forward T (down_0 enc) x0) (\<lambda>x.
     bindE (Sequential_forward T (enc_block_1 enc) x) (\<lambda>x1.
     bindE (MedNeXtDownBlock_forward T (down_1 enc) x1) (\<lambda>x.
     bindE (Sequential_forward T (enc_block_2 enc) x) (\<lambda>x2.
     bindE (MedNeXtDownBlock_forward T (down_2 enc) x2) (\<lambda>x.
     bindE (Sequential_forward T (enc_block_3 enc) x) (\<lambda>x3.
     bindE (MedNeXtDownBlock_forward T (down_3 enc) x3) (\<lambda>x4.
     bindE (getattr (return_skips enc)) (\<lambda>rs.
     if rs then Inr (Multi [x0, x1, x2, x3, x4]) else Inr (Single x4)))))))))))"

section \<open>MedNeXtDecoder\<close>

record 'a MedNeXtDecoder =
  do_ds :: bool
  dec_inside_block_checkpointing :: bool
  dec_outside_block_checkpointing :: bool
  bottleneck :: "'a MedNeXtBlock list"
  up_3 :: "'a MedNeXtResampleBlock"
  dec_block_3 :: "'a MedNeXtBlock list"
  up_2 :: "'a MedNeXtResampleBlock"
  dec_block_2 :: "'a MedNeXtBlock list"
  up_1 :: "'a MedNeXtResampleBlock"
  dec_block_1 :: "'a MedNeXtBlock list"
  up_0 :: "'a MedNeXtResampleBlock"
  dec_block_0 :: "'a MedNeXtBlock list"
  out_0 :: OutBlock
  dummy_tensor :: 'a
  out_1 :: "OutBlock option"
  out_2 :: "OutBlock option"
  out_3 :: "OutBlock option"
  out_4 :: "OutBlock option"
  block_counts :: "nat list"

definition dec_up ::
  "'a torch \<Rightarrow> nat \<Rightarrow> nat \<Rightarrow> nat list \<Rightarrow> nat \<Rightarrow> nat option \<Rightarrow> bool \<Rightarrow> string \<Rightarrow> string \<Rightarrow> bool
     \<Rightarrow> error + 'a MedNeXtResampleBlock" where
  "dec_up T cin cout exp_r j ks res norm_type dm g =
     bindE (py_index exp_r j) (\<lambda>er.
     bindE (local_kernel_size ks) (\<lambda>k.
     MedNeXtUpBlock_init T cin cout er k res norm_type dm g))"

text \<open>The heads \<open>out_1\<close> to \<open>out_4\<close> are assigned only under \<^verbatim>\<open>if deep_supervision:\<close>.\<close>

definition ds_head :: "bool \<Rightarrow> nat \<Rightarrow> nat \<Rightarrow> string \<Rightarrow> error + OutBlock option" where
  "ds_head deep_supervision cin n_classes dm =
     (if deep_supervision then bindE (OutBlock_init cin n_classes dm) (\<lambda>ob. Inr (Some ob))
      else Inr None)"

text \<open>
  \<^verbatim>\<open>MedNeXtDecoder.__init__(in_channels, n_channels, n_classes, exp_r, kernel_size,
  deep_supervision, do_res, do_res_up_down, checkpoint_style, block_counts, norm_type,
  dim, grn)\<close>.
\<close>

definition MedNeXtDecoder_init ::
  "'a torch \<Rightarrow> nat \<Rightarrow> nat \<Rightarrow> nat \<Rightarrow> exp_r_arg \<Rightarrow> nat option \<Rightarrow> bool \<Rightarrow> bool \<Rightarrow> bool
     \<Rightarrow> string option \<Rightarrow> nat list \<Rightarrow> string \<Rightarrow> string \<Rightarrow> bool \<Rightarrow> error + 'a MedNeXtDecoder" where
  "MedNeXtDecoder_init T in_channels n_channels n_classes exp_r kernel_size deep_supervision
       res do_res_up_down checkpoint_style bcs norm_type dm g =
     bindE (Inr (exp_r_list exp_r bcs)) (\<lambda>er.
     bindE (assert_checkpoint_style checkpoint_style) (\<lambda>_.
     bindE (assert_dim dm) (\<lambda>_.
     bindE (block_sequence T bcs 4 er 4 (n_channels * 16) kernel_size res norm_type dm g) (\<lambda>bn.
     bindE (dec_up T (16 * n_channels) (8 * n_channels) er 5 kernel_size do_res_up_down
              norm_type dm g) (\<lambda>u3.
     bindE (block_sequence T bcs 5 er 5 (n_channels * 8) kernel_size res norm_type dm g) (\<lambda>b3.
     bindE (dec_up T (8 * n_channels) (4 * n_channels) er 6 kernel_size do_res_up_down
              norm_type dm g) (\<lambda>u2.
     bindE (block_sequence T bcs 6 er 6 (n_channels * 4) kernel_size res norm_type dm g) (\<lambda>b2.
     bindE (dec_up T (4 * n_channels) (2 * n_channels) er 7 kernel_size do_res_up_down
              norm_type dm g) (\<lambda>u1.
     bindE (block_sequence T bcs 7 er 7 (n_channels * 2) kernel_size res norm_type dm g) (\<lambda>b1.
     bindE (dec_up T (2 * n_channels) n_channels er 8 kernel_size do_res_up_down
              norm_type dm g) (\<lambda>u0.
     bindE (block_sequence T bcs 8 er 8 n_channels kernel_size res norm_type dm g) (\<lambda>b0.
     bindE (OutBlock_init n_channels n_classes dm) (\<lambda>o0.
     bindE (ds_head deep_supervision (n_channels * 2) n_classes dm) (\<lambda>o1.
     bindE (ds_head deep_supervision (n_channels * 4) n_classes dm) (\<lambda>o2.
     bindE (ds_head deep_supervision (n_channels * 8) n_classes dm) (\<lambda>o3.
     bindE (ds_head deep_supervision (n_channels * 16) n_classes dm) (\<lambda>o4.
     Inr \<lparr>do_ds = deep_supervision,
          dec_inside_block_checkpointing = False,
          dec_outside_block_checkpointing = (checkpoint_style = Some ''outside_block''),
          bottleneck = bn, up_3 = u3, dec_block_3 = b3, up_2 = u2, dec_block_2 = b2,
          up_1 = u1, dec_block_1 = b1, up_0 = u0, dec_block_0 = b0, out_0 = o0,
          dummy_tensor = t_ones T [1],
          out_1 = o1, out_2 = o2, out_3 = o3, out_4 = o4,
          block_counts = bcs\<rparr>)))))))))))))))))"

text \<open>
  Tuple unpacking \<^verbatim>\<open>a, b, c, d = v\<close> and \<^verbatim>\<open>a, b = v\<close>: \<open>v\<close> is iterated (a list
  yields its elements, a tensor its slices along axis 0), and a wrong number of items
  raises ValueError.
\<close>

definition py_iter :: "'a torch \<Rightarrow> 'a pyret \<Rightarrow> error + 'a list" where
  "py_iter T v = (case v of Multi l \<Rightarrow> Inr l | Single t \<Rightarrow> t_unbind T t)"

definition unpack4 :: "'a torch \<Rightarrow> 'a pyret \<Rightarrow> error + ('a \<times> 'a \<times> 'a \<times> 'a)" where
  "unpack4 T v =
     bindE (py_iter T v)
       (\<lambda>l. case l of [a, b, c, d] \<Rightarrow> Inr (a, b, c, d) | _ \<Rightarrow> Inl ValueError)"

definition unpack2 :: "'a torch \<Rightarrow> 'a pyret \<Rightarrow> error + ('a \<times> 'a)" where
  "unpack2 T v =
     bindE (py_iter T v) (\<lambda>l. case l of [a, b] \<Rightarrow> Inr (a, b) | _ \<Rightarrow> Inl ValueError)"

text \<open>
  \<^verbatim>\<open>if self.do_ds: x_ds_k = self.out_k(x)\<close>: the local name is bound only under deep
  supervision.
\<close>

definition ds_out :: "'a torch \<Rightarrow> bool \<Rightarrow> OutBlock option \<Rightarrow> 'a \<Rightarrow> error + 'a option" where
  "ds_out T ds head x =
     (if ds then
        bindE (getattr head) (\<lambda>ob. bindE (OutBlock_forward T ob x) (\<lambda>y. Inr (Some y)))
      else Inr None)"

text \<open>
  \<^verbatim>\<open>MedNeXtDecoder.forward(x, skips)\<close>; it ends with
  \<^verbatim>\<open>if self.do_ds: return [x, x_ds_1, x_ds_2, x_ds_3, x_ds_4] else: return x\<close>.
\<close>

definition MedNeXtDecoder_forward ::
  "'a torch \<Rightarrow> 'a MedNeXtDecoder \<Rightarrow> 'a \<Rightarrow> 'a pyret \<Rightarrow> error + 'a pyret" where
  "MedNeXtDecoder_forward T dec x skips =
     bindE (unpack4 T skips) (\<lambda>(x_res_3, x_res_2, x_res_1, x_res_0).
     bindE (Sequential_forward T (bottleneck dec) x) (\<lambda>x.
     bindE (ds_out T (do_ds dec) (out_4 dec) x) (\<lambda>x_ds_4.
     bindE (MedNeXtUpBlock_forward T (up_3 dec) x) (\<lambda>x_up_3.
     bindE (t_add T x_res_3 x_up_3) (\<lambda>dec_x.
     bindE (Sequential_forward T (dec_block_3 dec) dec_x) (\<lambda>x.
     bindE (ds_out T (do_ds dec) (out_3 dec) x) (\<lambda>x_ds_3.
     bindE (MedNeXtUpBlock_forward T (up_2 dec) x) (\<lambda>x_up_2.
     bindE (t_add T x_res_2 x_up_2) (\<lambda>dec_x.
     bindE (Sequential_forward T (dec_block_2 dec) dec_x) (\<lambda>x.
     bindE (ds_out T (do_ds dec) (out_2 dec) x) (\<lambda>x_ds_2.
     bindE (MedNeXtUpBlock_forward T (up_1 dec) x) (\<lambda>x_up_1.
     bindE (t_add T x_res_1 x_up_1) (\<lambda>dec_x.
     bindE (Sequential_forward T (dec_block_1 dec) dec_x) (\<lambda>x.
     bindE (ds_out T (do_ds dec) (out_1 dec) x) (\<lambda>x_ds_1.
     bindE (MedNeXtUpBlock_forward T (up_0 dec) x) (\<lambda>x_up_0.
     bindE (t_add T x_res_0 x_up_0) (\<lambda>dec_x.
     bindE (Sequential_forward T (dec_block_0 dec) dec_x) (\<lambda>x.
     bindE (OutBlock_forward T (out_0 dec) x) (\<lambda>x.
     if do_ds dec then
       (case (x_ds_1, x_ds_2, x_ds_3, x_ds_4) of
          (Some y1, Some y2, Some y3, Some y4) \<Rightarrow> Inr (Multi [x, y1, y2, y3, y4])
        | _ \<Rightarrow> Inl NameError)
     else Inr (Single x))))))))))))))))))))"

section \<open>MedNeXt\<close>

text \<open>
  The method \<open>iterative_checkpoint\<close> of the network reads \<open>self.dummy_tensor\<close>.  Only
  the decoder is given an attribute of that name; on the network it is never assigned
  (here \<open>net_dummy_tensor\<close>, left at \<open>None\<close> by the constructor).
\<close>

record 'a MedNeXt =
  net_do_ds :: bool
  inside_block_checkpointing :: bool
  outside_block_checkpointing :: bool
  encoder :: "'a MedNeXtEncoder"
  decoder :: "'a MedNeXtDecoder"
  net_dummy_tensor :: "'a option"

text \<open>
  \<^verbatim>\<open>MedNeXt.__init__(in_channels, n_channels, n_classes, exp_r, kernel_size,
  enc_kernel_size, dec_kernel_size, deep_supervision, do_res, do_res_up_down,
  checkpoint_style, block_counts, norm_type, dim, grn)\<close>.
\<close>

definition MedNeXt_init ::
  "'a torch \<Rightarrow> nat \<Rightarrow> nat \<Rightarrow> nat \<Rightarrow> exp_r_arg \<Rightarrow> nat option \<Rightarrow> nat option \<Rightarrow> nat option \<Rightarrow> bool
     \<Rightarrow> bool \<Rightarrow> bool \<Rightarrow> string option \<Rightarrow> nat list \<Rightarrow> string \<Rightarrow> string \<Rightarrow> bool
     \<Rightarrow> error + 'a MedNeXt" where
  "MedNeXt_init T in_channels n_channels n_classes exp_r kernel_size enc_kernel_size
       dec_kernel_size deep_supervision res do_res_up_down checkpoint_style bcs norm_type dm g =
     bindE (assert_checkpoint_style checkpoint_style) (\<lambda>_.
     bindE (assert_dim dm) (\<lambda>_.
     bindE (MedNeXtEncoder_init T in_channels n_channels exp_r
              (case kernel_size of None \<Rightarrow> enc_kernel_size | Some k \<Rightarrow> Some k)
              res do_res_up_down checkpoint_style bcs norm_type dm g) (\<lambda>enc.
     bindE (MedNeXtDecoder_init T in_channels n_channels n_classes exp_r
              (case kernel_size of None \<Rightarrow> dec_kernel_size | Some k \<Rightarrow> Some k)
              deep_supervision res do_res_up_down checkpoint_style bcs norm_type dm g) (\<lambda>dec.
     Inr \<lparr>net_do_ds = deep_supervision,
          inside_block_checkpointing = False,
          outside_block_checkpointing = (checkpoint_style = Some ''outside_block''),
          encoder = enc, decoder = dec, net_dummy_tensor = None\<rparr>))))"

text \<open>
  \<^verbatim>\<open>MedNeXt.iterative_checkpoint(sequential_block, x)\<close>:
  \<^verbatim>\<open>for l in sequential_block: x = checkpoint.checkpoint(l, x, self.dummy_tensor)\<close>.
  The checkpointed call computes \<open>l(x, self.dummy_tensor)\<close>, and the forward of a block
  ignores its second argument; the arguments are evaluated before the call.
  No method of the file calls \<open>iterative_checkpoint\<close>.
\<close>

fun iterative_checkpoint ::
  "'a torch \<Rightarrow> 'a MedNeXt \<Rightarrow> 'a MedNeXtBlock list \<Rightarrow> 'a \<Rightarrow> error + 'a" where
  "iterative_checkpoint T net [] x = Inr x"
| "iterative_checkpoint T net (l # ls) x =
     bindE (getattr (net_dummy_tensor net)) (\<lambda>dummy.
     bindE (MedNeXtBlock_forward T l x) (iterative_checkpoint T net ls))"

text \<open>
  \<^verbatim>\<open>MedNeXt.forward\<close>: \<^verbatim>\<open>x, skips = self.encoder(x)\<close>, then
  \<^verbatim>\<open>out = self.decoder(x, skips)\<close>.
\<close>

definition MedNeXt_forward :: "'a torch \<Rightarrow> 'a MedNeXt \<Rightarrow> 'a \<Rightarrow> error + 'a pyret" where
  "MedNeXt_forward T net x =
     bindE (MedNeXtEncoder_forward T (encoder net) x) (\<lambda>r.
     bindE (unpack2 T r) (\<lambda>(x, skips).
     MedNeXtDecoder_forward T (decoder net) x (Single skips)))"

section \<open>Spatial extents and the order of a collection of outputs\<close>

text \<open>
  Of a shape \<open>(N, C, spatial...)\<close>, the spatial extents and the channel count.
\<close>

definition spatial :: "nat list \<Rightarrow> nat list" where
  "spatial s = drop 2 s"

definition channels :: "nat list \<Rightarrow> nat option" where
  "channels s = (case s of n # c # sp \<Rightarrow> Some c | _ \<Rightarrow> None)"

text \<open>
  A collection is ordered finest first when, from each element to the next, every
  spatial extent gets strictly smaller; coarsest first when every spatial extent gets
  strictly larger.
\<close>

fun finest_first :: "nat list list \<Rightarrow> bool" where
  "finest_first (a # b # r) = (list_all2 (<) (spatial b) (spatial a) \<and> finest_first (b # r))"
| "finest_first r = True"

fun coarsest_first :: "nat list list \<Rightarrow> bool" where
  "coarsest_first (a # b # r) = (list_all2 (<) (spatial a) (spatial b) \<and> coarsest_first (b # r))"
| "coarsest_first r = True"

section \<open>Facts about sequencing and about shapes\<close>

lemma bindE_simps [simp]: "bindE (Inr v) f = f v" "bindE (Inl e) f = Inl e"
  by (simp_all add: bindE_def)

lemma bindE_cong [cong]: "m = m' \<Longrightarrow> bindE m f = bindE m' f"
  by simp

lemma bindE_InrE: "bindE m f = Inr r \<Longrightarrow> (\<And>v. m = Inr v \<Longrightarrow> f v = Inr r \<Longrightarrow> P) \<Longrightarrow> P"
  by (cases m) simp_all

lemma getattr_simps [simp]: "getattr None = Inl AttributeError" "getattr (Some v) = Inr v"
  by (simp_all add: getattr_def)

lemma shape_torch_sel [simp]:
  "t_conv shape_torch = (\<lambda>a. shape_conv)"
  "t_group_norm shape_torch = shape_group_norm"
  "t_gelu shape_torch = (\<lambda>s. s)"
  "t_zeros shape_torch = (\<lambda>s. s)"
  "t_ones shape_torch = (\<lambda>s. s)"
  "t_norm shape_torch = shape_norm"
  "t_mean1 shape_torch = shape_mean1"
  "t_add_scalar shape_torch = (\<lambda>s r. s)"
  "t_add shape_torch = broadcast_shapes"
  "t_sub shape_torch = broadcast_shapes"
  "t_mul shape_torch = broadcast_shapes"
  "t_div shape_torch = broadcast_shapes"
  "t_pow shape_torch = (\<lambda>s n. s)"
  "t_sqrt shape_torch = (\<lambda>s. s)"
  "t_pad shape_torch = shape_pad"
  "t_layer_norm shape_torch = shape_layer_norm"
  "t_index_none3 shape_torch = shape_index_none3"
  "t_unbind shape_torch = shape_unbind"
  by (simp_all add: shape_torch_def)

lemma bcast_rev_same: "bcast_rev xs xs = Some xs"
  by (induction xs) simp_all

lemma broadcast_shapes_same [simp]: "broadcast_shapes s s = Inr s"
  by (simp add: broadcast_shapes_def bcast_rev_same)

lemma shape_norm_3 [simp]: "shape_norm 3 [n, c, d, h, w] = Inr [n, c, 1, 1, 1]"
  by (simp add: shape_norm_def eval_nat_numeral)

lemma shape_norm_2 [simp]: "shape_norm 2 [n, c, h, w] = Inr [n, c, 1, 1]"
  by (simp add: shape_norm_def eval_nat_numeral)

lemma shape_mean1_cons [simp]: "shape_mean1 (n # c # sp) = Inr (n # 1 # sp)"
  by (simp add: shape_mean1_def)

lemma shape_pad_3 [simp]:
  "shape_pad [Suc 0, 0, Suc 0, 0, Suc 0, 0] [n, c, d, h, w] = Inr [n, c, Suc d, Suc h, Suc w]"
  by (simp add: shape_pad_def)

lemma shape_pad_2 [simp]:
  "shape_pad [Suc 0, 0, Suc 0, 0] [n, c, h, w] = Inr [n, c, Suc h, Suc w]"
  by (simp add: shape_pad_def)

lemma shape_conv_batched [simp]:
  "shape_conv c (n # ch # sp) =
     (if c_in c = 0 \<or> c_out c = 0 then Inl RuntimeError
      else if length sp = ndim c \<and> ch = c_in c then
        bindE (mapE (conv_axis c) sp) (\<lambda>sp'. Inr (n # c_out c # sp'))
      else if Suc (length sp) = ndim c \<and> n = c_in c then
        bindE (mapE (conv_axis c) (ch # sp)) (\<lambda>sp'. Inr (c_out c # sp'))
      else Inl RuntimeError)"
  by (auto simp: shape_conv_def cong del: bindE_cong)

lemma bcast_grn3 [simp]:
  "broadcast_shapes [n, c, Suc 0, Suc 0, Suc 0] [n, Suc 0, Suc 0, Suc 0, Suc 0]
     = Inr [n, c, Suc 0, Suc 0, Suc 0]"
  "broadcast_shapes [n, c, d, h, w] [n, c, Suc 0, Suc 0, Suc 0] = Inr [n, c, d, h, w]"
  "broadcast_shapes [Suc 0, c, Suc 0, Suc 0, Suc 0] [n, c, d, h, w] = Inr [n, c, d, h, w]"
  "broadcast_shapes [n, c, d, h, w] [Suc 0, c, Suc 0, Suc 0, Suc 0] = Inr [n, c, d, h, w]"
  "broadcast_shapes [n, c, d, h, w] [n, Suc 0, d, h, w] = Inr [n, c, d, h, w]"
  "broadcast_shapes [c, Suc 0, Suc 0, Suc 0] [n, c, d, h, w] = Inr [n, c, d, h, w]"
  "broadcast_shapes [n, c, d, h, w] [c, Suc 0, Suc 0, Suc 0] = Inr [n, c, d, h, w]"
  by (auto simp: broadcast_shapes_def)

lemma bcast_grn2 [simp]:
  "broadcast_shapes [n, c, Suc 0, Suc 0] [n, Suc 0, Suc 0, Suc 0] = Inr [n, c, Suc 0, Suc 0]"
  "broadcast_shapes [n, c, h, w] [n, c, Suc 0, Suc 0] = Inr [n, c, h, w]"
  "broadcast_shapes [Suc 0, c, Suc 0, Suc 0] [n, c, h, w] = Inr [n, c, h, w]"
  "broadcast_shapes [n, c, h, w] [Suc 0, c, Suc 0, Suc 0] = Inr [n, c, h, w]"
  "broadcast_shapes [n, c, h, w] [n, Suc 0, h, w] = Inr [n, c, h, w]"
  by (auto simp: broadcast_shapes_def)

lemma conv_axis_same:
  "0 < i \<Longrightarrow> odd k \<Longrightarrow>
   conv_axis \<lparr>transposed = False, ndim = d, c_in = a, c_out = b, ksize = k, stride = Suc 0,
              padding = k div 2, groups = g\<rparr> i = Inr i"
  by (auto simp: conv_axis_def elim!: oddE)

lemma conv_axis_one [simp]:
  "0 < i \<Longrightarrow>
   conv_axis \<lparr>transposed = tr, ndim = d, c_in = a, c_out = b, ksize = Suc 0, stride = Suc 0,
              padding = 0, groups = g\<rparr> i = Inr i"
  by (auto simp: conv_axis_def)

lemma conv_axis_down:
  "0 < i \<Longrightarrow> odd k \<Longrightarrow>
   conv_axis \<lparr>transposed = False, ndim = d, c_in = a, c_out = b, ksize = k, stride = 2,
              padding = k div 2, groups = g\<rparr> i = Inr (Suc ((i - Suc 0) div 2))"
  by (auto simp: conv_axis_def elim!: oddE)

lemma conv_axis_res_down [simp]:
  "0 < i \<Longrightarrow>
   conv_axis \<lparr>transposed = False, ndim = d, c_in = a, c_out = b, ksize = Suc 0, stride = 2,
              padding = 0, groups = g\<rparr> i = Inr (Suc ((i - Suc 0) div 2))"
  by (auto simp: conv_axis_def)

lemma conv_axis_up:
  "0 < i \<Longrightarrow> odd k \<Longrightarrow>
   conv_axis \<lparr>transposed = True, ndim = d, c_in = a, c_out = b, ksize = k, stride = 2,
              padding = k div 2, groups = g\<rparr> i = Inr (2 * i - Suc 0)"
  by (auto simp: conv_axis_def elim!: oddE)

lemma conv_axis_res_up [simp]:
  "0 < i \<Longrightarrow>
   conv_axis \<lparr>transposed = True, ndim = d, c_in = a, c_out = b, ksize = Suc 0, stride = 2,
              padding = 0, groups = g\<rparr> i = Inr (2 * i - Suc 0)"
  by (auto simp: conv_axis_def)

lemma norm_call_group [simp]:
  "0 < c \<Longrightarrow> n * (d * h * w) \<noteq> 1 \<Longrightarrow>
   norm_call shape_torch (NormGroup \<lparr>num_groups = c, num_channels = c\<rparr>) [n, c, d, h, w]
     = Inr [n, c, d, h, w]"
  by (simp add: norm_call_def)

lemma norm_call_group2 [simp]:
  "0 < c \<Longrightarrow> n * (h * w) \<noteq> 1 \<Longrightarrow>
   norm_call shape_torch (NormGroup \<lparr>num_groups = c, num_channels = c\<rparr>) [n, c, h, w]
     = Inr [n, c, h, w]"
  by (simp add: norm_call_def)

lemma norm_call_layer3 [simp]:
  "norm_call shape_torch
     (NormLayer \<lparr>weight = [c], bias = [c], eps = e, data_format = ''channels_first'',
                 normalized_shape = c\<rparr>) [n, c, d, h, w]
     = Inr [n, c, d, h, w]"
  by (simp add: norm_call_def LayerNorm_forward_def)

lemma grn_shape3:
  "dim_s b = ''3d'' \<Longrightarrow> grn_gamma b = Some [1, e, 1, 1, 1] \<Longrightarrow> grn_beta b = Some [1, e, 1, 1, 1] \<Longrightarrow>
   MedNeXtBlock_grn shape_torch b [n, e, d, h, w] = Inr [n, e, d, h, w]"
  by (simp add: MedNeXtBlock_grn_def MedNeXtBlock_grn_ratio_def)

lemma grn_shape2:
  "dim_s b = ''2d'' \<Longrightarrow> grn_gamma b = Some [1, e, 1, 1] \<Longrightarrow> grn_beta b = Some [1, e, 1, 1] \<Longrightarrow>
   MedNeXtBlock_grn shape_torch b [n, e, h, w] = Inr [n, e, h, w]"
  by (simp add: MedNeXtBlock_grn_def MedNeXtBlock_grn_ratio_def)

lemma block_forward_fields3:
  assumes "shape_conv (conv1 b) [n, c, d, h, w] = Inr [n, c, d', h', w']"
    and "norm_l b = Some nl"
    and "norm_call shape_torch nl [n, c, d', h', w'] = Inr [n, c, d', h', w']"
    and "conv2 b = \<lparr>transposed = False, ndim = 3, c_in = c, c_out = e, ksize = 1, stride = 1,
                     padding = 0, groups = 1\<rparr>"
    and "conv3 b = \<lparr>transposed = False, ndim = 3, c_in = e, c_out = c', ksize = 1, stride = 1,
                     padding = 0, groups = 1\<rparr>"
    and "dim_s b = ''3d''"
    and "grn b \<Longrightarrow> grn_gamma b = Some [1, e, 1, 1, 1] \<and> grn_beta b = Some [1, e, 1, 1, 1]"
    and "do_res b \<Longrightarrow> c' = c \<and> d' = d \<and> h' = h \<and> w' = w"
    and "0 < d'" "0 < h'" "0 < w'"
    and "0 < c" "0 < e" "0 < c'"
  shows "MedNeXtBlock_forward shape_torch b [n, c, d, h, w] = Inr [n, c', d', h', w']"
  using assms by (simp add: MedNeXtBlock_forward_def MedNeXtBlock_expand_def grn_shape3)

lemma block_forward_fields2:
  assumes "shape_conv (conv1 b) [n, c, h, w] = Inr [n, c, h', w']"
    and "norm_l b = Some nl"
    and "norm_call shape_torch nl [n, c, h', w'] = Inr [n, c, h', w']"
    and "conv2 b = \<lparr>transposed = False, ndim = 2, c_in = c, c_out = e, ksize = 1, stride = 1,
                     padding = 0, groups = 1\<rparr>"
    and "conv3 b = \<lparr>transposed = False, ndim = 2, c_in = e, c_out = c', ksize = 1, stride = 1,
                     padding = 0, groups = 1\<rparr>"
    and "dim_s b = ''2d''"
    and "grn b \<Longrightarrow> grn_gamma b = Some [1, e, 1, 1] \<and> grn_beta b = Some [1, e, 1, 1]"
    and "do_res b \<Longrightarrow> c' = c \<and> h' = h \<and> w' = w"
    and "0 < h'" "0 < w'"
    and "0 < c" "0 < e" "0 < c'"
  shows "MedNeXtBlock_forward shape_torch b [n, c, h, w] = Inr [n, c', h', w']"
  using assms by (simp add: MedNeXtBlock_forward_def MedNeXtBlock_expand_def grn_shape2)

lemmas init_defs = MedNeXtBlock_init_def conv_of_dim_def nn_Conv_def block_norm_def nn_GroupNorm_def
  grn_param_def LayerNorm_init_def

lemma block_init_fields:
  assumes "MedNeXtBlock_init T cin cout er k res nt None dm g = Inr b"
  shows "0 < cin" and "dm = ''2d'' \<or> dm = ''3d''"
    and "conv1 b = \<lparr>transposed = False, ndim = (if dm = ''2d'' then 2 else 3), c_in = cin,
                     c_out = cin, ksize = k, stride = 1, padding = k div 2, groups = cin\<rparr>"
    and "conv2 b = \<lparr>transposed = False, ndim = (if dm = ''2d'' then 2 else 3), c_in = cin,
                     c_out = er * cin, ksize = 1, stride = 1, padding = 0, groups = 1\<rparr>"
    and "conv3 b = \<lparr>transposed = False, ndim = (if dm = ''2d'' then 2 else 3), c_in = er * cin,
                     c_out = cout, ksize = 1, stride = 1, padding = 0, groups = 1\<rparr>"
    and "dim_s b = dm" and "do_res b = res" and "grn b = g"
    and "grn_gamma b = grn_param T g dm (er * cin)"
    and "grn_beta b = grn_param T g dm (er * cin)"
    and "norm_l b =
           (if nt = ''group'' then Some (NormGroup \<lparr>num_groups = cin, num_channels = cin\<rparr>)
            else if nt = ''layer'' then
              Some (NormLayer \<lparr>weight = t_ones T [cin], bias = t_zeros T [cin], eps = 1 / 100000,
                                data_format = ''channels_first'', normalized_shape = cin\<rparr>)
            else None)"
  using assms by (auto simp: init_defs split: if_splits)

lemma block_forward3:
  assumes init: "MedNeXtBlock_init shape_torch c c' er k res nt None ''3d'' g = Inr b"
    and k: "odd k" and nt: "nt = ''group'' \<or> nt = ''layer''"
    and res: "res \<Longrightarrow> c' = c"
    and pos: "0 < d" "0 < h" "0 < w"
    and grp: "nt = ''group'' \<Longrightarrow> n * (d * h * w) \<noteq> 1"
    and chn: "0 < er" "0 < c'"
  shows "MedNeXtBlock_forward shape_torch b [n, c, d, h, w] = Inr [n, c', d, h, w]"
proof -
  note f = block_init_fields [OF init]
  show ?thesis
  proof (rule block_forward_fields3 [where e = "er * c"])
    show "shape_conv (conv1 b) [n, c, d, h, w] = Inr [n, c, d, h, w]"
      using k pos by (simp add: f conv_axis_same)
    show "norm_l b = Some (if nt = ''group'' then NormGroup \<lparr>num_groups = c, num_channels = c\<rparr>
            else NormLayer \<lparr>weight = [c], bias = [c], eps = 1 / 100000,
                                data_format = ''channels_first'', normalized_shape = c\<rparr>)"
      using nt by (auto simp: f)
    show "norm_call shape_torch (if nt = ''group'' then NormGroup \<lparr>num_groups = c, num_channels = c\<rparr>
            else NormLayer \<lparr>weight = [c], bias = [c], eps = 1 / 100000,
                                data_format = ''channels_first'', normalized_shape = c\<rparr>) [n, c, d, h, w] = Inr [n, c, d, h, w]"
      using nt grp f(1) by auto
  qed (use res pos chn in \<open>simp_all add: f grn_param_def\<close>)
qed

lemma block_forward2:
  assumes init: "MedNeXtBlock_init shape_torch c c' er k res ''group'' None ''2d'' g = Inr b"
    and k: "odd k"
    and res: "res \<Longrightarrow> c' = c"
    and pos: "0 < h" "0 < w"
    and grp: "n * (h * w) \<noteq> 1"
    and chn: "0 < er" "0 < c'"
  shows "MedNeXtBlock_forward shape_torch b [n, c, h, w] = Inr [n, c', h, w]"
proof -
  note f = block_init_fields [OF init]
  show ?thesis
  proof (rule block_forward_fields2 [where e = "er * c"])
    show "shape_conv (conv1 b) [n, c, h, w] = Inr [n, c, h, w]"
      using k pos by (simp add: f conv_axis_same)
    show "norm_l b = Some (NormGroup \<lparr>num_groups = c, num_channels = c\<rparr>)"
      by (auto simp: f)
    show "norm_call shape_torch (NormGroup \<lparr>num_groups = c, num_channels = c\<rparr>) [n, c, h, w] = Inr [n, c, h, w]"
      using grp f(1) by auto
  qed (use res pos chn in \<open>simp_all add: f grn_param_def\<close>)
qed

lemma Sequential_replicate:
  "MedNeXtBlock_forward T b x = Inr x \<Longrightarrow> Sequential_forward T (replicate m b) x = Inr x"
  by (induction m) simp_all

lemma block_sequence_cases:
  assumes "block_sequence T bcs i er j c (Some k) res nt dm g = Inr bs"
  shows "bs = [] \<or> (\<exists>b m. j < length er
            \<and> MedNeXtBlock_init T c c (er ! j) k res nt None dm g = Inr b \<and> bs = replicate m b)"
  using assms
  by (auto simp: block_sequence_def py_index_def py_listcomp_def local_kernel_size_def
      split: if_splits sum.splits elim!: bindE_InrE)

lemma sequence_forward3:
  assumes "block_sequence shape_torch bcs i er j c (Some k) res nt ''3d'' g = Inr bs"
    and "odd k" and "nt = ''group'' \<or> nt = ''layer''"
    and "0 < d" "0 < h" "0 < w"
    and "nt = ''group'' \<Longrightarrow> n * (d * h * w) \<noteq> 1"
    and "j < length er \<Longrightarrow> 0 < er ! j"
  shows "Sequential_forward shape_torch bs [n, c, d, h, w] = Inr [n, c, d, h, w]"
proof -
  from block_sequence_cases [OF assms(1)] consider "bs = []"
    | b m where "j < length er"
        "MedNeXtBlock_init shape_torch c c (er ! j) k res nt None ''3d'' g = Inr b"
        "bs = replicate m b"
    by blast
  then show ?thesis
  proof cases
    case 1
    then show ?thesis by simp
  next
    case 2
    from block_init_fields(1) [OF 2(2)] have "0 < c" .
    with 2 assms(2-) show ?thesis
      by (auto intro!: Sequential_replicate block_forward3)
  qed
qed

lemma sequence_forward2:
  assumes "block_sequence shape_torch bcs i er j c (Some k) res ''group'' ''2d'' g = Inr bs"
    and "odd k"
    and "0 < h" "0 < w"
    and "n * (h * w) \<noteq> 1"
    and "j < length er \<Longrightarrow> 0 < er ! j"
  shows "Sequential_forward shape_torch bs [n, c, h, w] = Inr [n, c, h, w]"
proof -
  from block_sequence_cases [OF assms(1)] consider "bs = []"
    | b m where "j < length er"
        "MedNeXtBlock_init shape_torch c c (er ! j) k res ''group'' None ''2d'' g = Inr b"
        "bs = replicate m b"
    by blast
  then show ?thesis
  proof cases
    case 1
    then show ?thesis by simp
  next
    case 2
    from block_init_fields(1) [OF 2(2)] have "0 < c" .
    with 2 assms(2-) show ?thesis
      by (auto intro!: Sequential_replicate block_forward2)
  qed
qed

lemma down_init_fields:
  assumes "MedNeXtDownBlock_init T cin cout er k res nt dm g = Inr b"
  shows "0 < cin" and "dm = ''2d'' \<or> dm = ''3d''"
    and "conv1 b = \<lparr>transposed = False, ndim = (if dm = ''2d'' then 2 else 3), c_in = cin,
                     c_out = cin, ksize = k, stride = 2, padding = k div 2, groups = cin\<rparr>"
    and "conv2 b = \<lparr>transposed = False, ndim = (if dm = ''2d'' then 2 else 3), c_in = cin,
                     c_out = er * cin, ksize = 1, stride = 1, padding = 0, groups = 1\<rparr>"
    and "conv3 b = \<lparr>transposed = False, ndim = (if dm = ''2d'' then 2 else 3), c_in = er * cin,
                     c_out = cout, ksize = 1, stride = 1, padding = 0, groups = 1\<rparr>"
    and "dim_s b = dm" and "\<not> do_res b" and "grn b = g"
    and "grn_gamma b = grn_param T g dm (er * cin)"
    and "grn_beta b = grn_param T g dm (er * cin)"
    and "norm_l b =
           (if nt = ''group'' then Some (NormGroup \<lparr>num_groups = cin, num_channels = cin\<rparr>)
            else if nt = ''layer'' then
              Some (NormLayer \<lparr>weight = t_ones T [cin], bias = t_zeros T [cin], eps = 1 / 100000,
                                data_format = ''channels_first'', normalized_shape = cin\<rparr>)
            else None)"
    and "resample_do_res b = res"
    and "res_conv b =
           (if res then Some \<lparr>transposed = False, ndim = (if dm = ''2d'' then 2 else 3),
                               c_in = cin, c_out = cout, ksize = 1, stride = 2, padding = 0,
                               groups = 1\<rparr>
            else None)"
proof -
  from assms obtain b0 where
    b0: "MedNeXtBlock_init T cin cout er k False nt None dm g = Inr b0"
    by (auto simp: MedNeXtDownBlock_init_def elim!: bindE_InrE)
  note f = block_init_fields [OF b0]
  from f(2) assms b0 have
    b: "b = \<lparr>do_res = do_res b0, dim_s = dim_s b0,
            conv1 = \<lparr>transposed = False, ndim = (if dm = ''2d'' then 2 else 3), c_in = cin,
                     c_out = cin, ksize = k, stride = 2, padding = k div 2, groups = cin\<rparr>,
            norm_l = norm_l b0, conv2 = conv2 b0, conv3 = conv3 b0, grn = grn b0,
            grn_beta = grn_beta b0, grn_gamma = grn_gamma b0,
            resample_do_res = res,
            res_conv = (if res then Some \<lparr>transposed = False,
                               ndim = (if dm = ''2d'' then 2 else 3),
                               c_in = cin, c_out = cout, ksize = 1, stride = 2, padding = 0,
                               groups = 1\<rparr>
                        else None)\<rparr>"
    by (auto simp: MedNeXtDownBlock_init_def conv_of_dim_def nn_Conv_def
        split: if_splits elim!: bindE_InrE)
  show "0 < cin" "dm = ''2d'' \<or> dm = ''3d''" by (rule f)+
  show "conv1 b = \<lparr>transposed = False, ndim = (if dm = ''2d'' then 2 else 3), c_in = cin,
                     c_out = cin, ksize = k, stride = 2, padding = k div 2, groups = cin\<rparr>"
    by (subst b) simp
  show "conv2 b = \<lparr>transposed = False, ndim = (if dm = ''2d'' then 2 else 3), c_in = cin,
                     c_out = er * cin, ksize = 1, stride = 1, padding = 0, groups = 1\<rparr>"
    by (subst b) (simp add: f)
  show "conv3 b = \<lparr>transposed = False, ndim = (if dm = ''2d'' then 2 else 3), c_in = er * cin,
                     c_out = cout, ksize = 1, stride = 1, padding = 0, groups = 1\<rparr>"
    by (subst b) (simp add: f)
  show "dim_s b = dm" by (subst b) (simp add: f)
  show "\<not> do_res b" by (subst b) (simp add: f)
  show "grn b = g" by (subst b) (simp add: f)
  show "grn_gamma b = grn_param T g dm (er * cin)" by (subst b) (simp add: f)
  show "grn_beta b = grn_param T g dm (er * cin)" by (subst b) (simp add: f)
  show "norm_l b =
           (if nt = ''group'' then Some (NormGroup \<lparr>num_groups = cin, num_channels = cin\<rparr>)
            else if nt = ''layer'' then
              Some (NormLayer \<lparr>weight = t_ones T [cin], bias = t_zeros T [cin], eps = 1 / 100000,
                                data_format = ''channels_first'', normalized_shape = cin\<rparr>)
            else None)"
    by (subst b) (simp add: f)
  show "resample_do_res b = res" by (subst b) simp
  show "res_conv b =
           (if res then Some \<lparr>transposed = False, ndim = (if dm = ''2d'' then 2 else 3),
                               c_in = cin, c_out = cout, ksize = 1, stride = 2, padding = 0,
                               groups = 1\<rparr>
            else None)"
    by (subst b) simp
qed

lemma up_init_fields:
  assumes "MedNeXtUpBlock_init T cin cout er k res nt dm g = Inr b"
  shows "0 < cin" and "dm = ''2d'' \<or> dm = ''3d''"
    and "conv1 b = \<lparr>transposed = True, ndim = (if dm = ''2d'' then 2 else 3), c_in = cin,
                     c_out = cin, ksize = k, stride = 2, padding = k div 2, groups = cin\<rparr>"
    and "conv2 b = \<lparr>transposed = False, ndim = (if dm = ''2d'' then 2 else 3), c_in = cin,
                     c_out = er * cin, ksize = 1, stride = 1, padding = 0, groups = 1\<rparr>"
    and "conv3 b = \<lparr>transposed = False, ndim = (if dm = ''2d'' then 2 else 3), c_in = er * cin,
                     c_out = cout, ksize = 1, stride = 1, padding = 0, groups = 1\<rparr>"
    and "dim_s b = dm" and "\<not> do_res b" and "grn b = g"
    and "grn_gamma b = grn_param T g dm (er * cin)"
    and "grn_beta b = grn_param T g dm (er * cin)"
    and "norm_l b =
           (if nt = ''group'' then Some (NormGroup \<lparr>num_groups = cin, num_channels = cin\<rparr>)
            else if nt = ''layer'' then
              Some (NormLayer \<lparr>weight = t_ones T [cin], bias = t_zeros T [cin], eps = 1 / 100000,
                                data_format = ''channels_first'', normalized_shape = cin\<rparr>)
            else None)"
    and "resample_do_res b = res"
    and "res_conv b =
           (if res then Some \<lparr>transposed = True, ndim = (if dm = ''2d'' then 2 else 3),
                               c_in = cin, c_out = cout, ksize = 1, stride = 2, padding = 0,
                               groups = 1\<rparr>
            else None)"
proof -
  from assms obtain b0 where
    b0: "MedNeXtBlock_init T cin cout er k False nt None dm g = Inr b0"
    by (auto simp: MedNeXtUpBlock_init_def elim!: bindE_InrE)
  note f = block_init_fields [OF b0]
  from f(2) assms b0 have
    b: "b = \<lparr>do_res = do_res b0, dim_s = dm,
            conv1 = \<lparr>transposed = True, ndim = (if dm = ''2d'' then 2 else 3), c_in = cin,
                     c_out = cin, ksize = k, stride = 2, padding = k div 2, groups = cin\<rparr>,
            norm_l = norm_l b0, conv2 = conv2 b0, conv3 = conv3 b0, grn = grn b0,
            grn_beta = grn_beta b0, grn_gamma = grn_gamma b0,
            resample_do_res = res,
            res_conv = (if res then Some \<lparr>transposed = True,
                               ndim = (if dm = ''2d'' then 2 else 3),
                               c_in = cin, c_out = cout, ksize = 1, stride = 2, padding = 0,
                               groups = 1\<rparr>
                        else None)\<rparr>"
    by (auto simp: MedNeXtUpBlock_init_def conv_of_dim_def nn_Conv_def
        split: if_splits elim!: bindE_InrE)
  show "0 < cin" "dm = ''2d'' \<or> dm = ''3d''" by (rule f)+
  show "conv1 b = \<lparr>transposed = True, ndim = (if dm = ''2d'' then 2 else 3), c_in = cin,
                     c_out = cin, ksize = k, stride = 2, padding = k div 2, groups = cin\<rparr>"
    by (subst b) simp
  show "conv2 b = \<lparr>transposed = False, ndim = (if dm = ''2d'' then 2 else 3), c_in = cin,
                     c_out = er * cin, ksize = 1, stride = 1, padding = 0, groups = 1\<rparr>"
    by (subst b) (simp add: f)
  show "conv3 b = \<lparr>transposed = False, ndim = (if dm = ''2d'' then 2 else 3), c_in = er * cin,
                     c_out = cout, ksize = 1, stride = 1, padding = 0, groups = 1\<rparr>"
    by (subst b) (simp add: f)
  show "dim_s b = dm" by (subst b) (simp add: f)
  show "\<not> do_res b" by (subst b) (simp add: f)
  show "grn b = g" by (subst b) (simp add: f)
  show "grn_gamma b = grn_param T g dm (er * cin)" by (subst b) (simp add: f)
  show "grn_beta b = grn_param T g dm (er * cin)" by (subst b) (simp add: f)
  show "norm_l b =
           (if nt = ''group'' then Some (NormGroup \<lparr>num_groups = cin, num_channels = cin\<rparr>)
            else if nt = ''layer'' then
              Some (NormLayer \<lparr>weight = t_ones T [cin], bias = t_zeros T [cin], eps = 1 / 100000,
                                data_format = ''channels_first'', normalized_shape = cin\<rparr>)
            else None)"
    by (subst b) (simp add: f)
  show "resample_do_res b = res" by (subst b) simp
  show "res_conv b =
           (if res then Some \<lparr>transposed = True, ndim = (if dm = ''2d'' then 2 else 3),
                               c_in = cin, c_out = cout, ksize = 1, stride = 2, padding = 0,
                               groups = 1\<rparr>
            else None)"
    by (subst b) simp
qed

lemma group_check_up:
  "n * (d * h * w) \<noteq> Suc 0 \<Longrightarrow> 0 < d \<Longrightarrow> 0 < h \<Longrightarrow> 0 < w \<Longrightarrow>
   n * ((2 * d - Suc 0) * (2 * h - Suc 0) * (2 * w - Suc 0)) \<noteq> Suc 0"
  by auto

lemma group_check_up2:
  "n * (h * w) \<noteq> Suc 0 \<Longrightarrow> 0 < h \<Longrightarrow> 0 < w \<Longrightarrow>
   n * ((2 * h - Suc 0) * (2 * w - Suc 0)) \<noteq> Suc 0"
  by auto

lemma down_forward3:
  assumes init: "MedNeXtDownBlock_init shape_torch c c' er k res nt ''3d'' g = Inr b"
    and k: "odd k" and nt: "nt = ''group'' \<or> nt = ''layer''"
    and pos: "0 < d" "0 < h" "0 < w"
    and grp: "nt = ''group'' \<Longrightarrow>
                n * (Suc ((d - Suc 0) div 2) * Suc ((h - Suc 0) div 2) * Suc ((w - Suc 0) div 2)) \<noteq> 1"
    and chn: "0 < er" "0 < c'"
  shows "MedNeXtDownBlock_forward shape_torch b [n, c, d, h, w]
           = Inr [n, c', Suc ((d - Suc 0) div 2), Suc ((h - Suc 0) div 2), Suc ((w - Suc 0) div 2)]"
proof -
  note f = down_init_fields [OF init]
  have "MedNeXtBlock_forward shape_torch b [n, c, d, h, w]
          = Inr [n, c', Suc ((d - Suc 0) div 2), Suc ((h - Suc 0) div 2), Suc ((w - Suc 0) div 2)]"
  proof (rule block_forward_fields3 [where e = "er * c"])
    show "shape_conv (conv1 b) [n, c, d, h, w]
            = Inr [n, c, Suc ((d - Suc 0) div 2), Suc ((h - Suc 0) div 2), Suc ((w - Suc 0) div 2)]"
      using k pos by (simp add: f conv_axis_down)
    show "norm_l b = Some (if nt = ''group'' then NormGroup \<lparr>num_groups = c, num_channels = c\<rparr>
            else NormLayer \<lparr>weight = [c], bias = [c], eps = 1 / 100000,
                                data_format = ''channels_first'', normalized_shape = c\<rparr>)"
      using nt by (auto simp: f)
    show "norm_call shape_torch (if nt = ''group'' then NormGroup \<lparr>num_groups = c, num_channels = c\<rparr>
            else NormLayer \<lparr>weight = [c], bias = [c], eps = 1 / 100000,
                                data_format = ''channels_first'', normalized_shape = c\<rparr>)
            [n, c, Suc ((d - Suc 0) div 2), Suc ((h - Suc 0) div 2), Suc ((w - Suc 0) div 2)]
          = Inr [n, c, Suc ((d - Suc 0) div 2), Suc ((h - Suc 0) div 2), Suc ((w - Suc 0) div 2)]"
      using nt grp f(1) by auto
  qed (use chn in \<open>simp_all add: f grn_param_def\<close>)
  then show ?thesis
    using pos chn f(1) by (simp add: MedNeXtDownBlock_forward_def f(2-))
qed

lemma down_forward2:
  assumes init: "MedNeXtDownBlock_init shape_torch c c' er k res ''group'' ''2d'' g = Inr b"
    and k: "odd k"
    and pos: "0 < h" "0 < w"
    and grp: "n * (Suc ((h - Suc 0) div 2) * Suc ((w - Suc 0) div 2)) \<noteq> 1"
    and chn: "0 < er" "0 < c'"
  shows "MedNeXtDownBlock_forward shape_torch b [n, c, h, w]
           = Inr [n, c', Suc ((h - Suc 0) div 2), Suc ((w - Suc 0) div 2)]"
proof -
  note f = down_init_fields [OF init]
  have "MedNeXtBlock_forward shape_torch b [n, c, h, w]
          = Inr [n, c', Suc ((h - Suc 0) div 2), Suc ((w - Suc 0) div 2)]"
  proof (rule block_forward_fields2 [where e = "er * c"])
    show "shape_conv (conv1 b) [n, c, h, w]
            = Inr [n, c, Suc ((h - Suc 0) div 2), Suc ((w - Suc 0) div 2)]"
      using k pos by (simp add: f conv_axis_down)
    show "norm_l b = Some (NormGroup \<lparr>num_groups = c, num_channels = c\<rparr>)"
      by (auto simp: f)
    show "norm_call shape_torch (NormGroup \<lparr>num_groups = c, num_channels = c\<rparr>)
            [n, c, Suc ((h - Suc 0) div 2), Suc ((w - Suc 0) div 2)]
          = Inr [n, c, Suc ((h - Suc 0) div 2), Suc ((w - Suc 0) div 2)]"
      using grp f(1) by auto
  qed (use chn in \<open>simp_all add: f grn_param_def\<close>)
  then show ?thesis
    using pos chn f(1) by (simp add: MedNeXtDownBlock_forward_def f(2-))
qed

lemma up_forward3:
  assumes init: "MedNeXtUpBlock_init shape_torch c c' er k res nt ''3d'' g = Inr b"
    and k: "odd k" and nt: "nt = ''group'' \<or> nt = ''layer''"
    and pos: "0 < d" "0 < h" "0 < w"
    and grp: "nt = ''group'' \<Longrightarrow> n * (d * h * w) \<noteq> 1"
    and chn: "0 < er" "0 < c'"
  shows "MedNeXtUpBlock_forward shape_torch b [n, c, d, h, w] = Inr [n, c', 2 * d, 2 * h, 2 * w]"
proof -
  note f = up_init_fields [OF init]
  have "MedNeXtBlock_forward shape_torch b [n, c, d, h, w]
          = Inr [n, c', 2 * d - Suc 0, 2 * h - Suc 0, 2 * w - Suc 0]"
  proof (rule block_forward_fields3 [where e = "er * c"])
    show "shape_conv (conv1 b) [n, c, d, h, w]
            = Inr [n, c, 2 * d - Suc 0, 2 * h - Suc 0, 2 * w - Suc 0]"
      using k pos by (simp add: f conv_axis_up)
    show "norm_l b = Some (if nt = ''group'' then NormGroup \<lparr>num_groups = c, num_channels = c\<rparr>
            else NormLayer \<lparr>weight = [c], bias = [c], eps = 1 / 100000,
                                data_format = ''channels_first'', normalized_shape = c\<rparr>)"
      using nt by (auto simp: f)
    show "norm_call shape_torch (if nt = ''group'' then NormGroup \<lparr>num_groups = c, num_channels = c\<rparr>
            else NormLayer \<lparr>weight = [c], bias = [c], eps = 1 / 100000,
                                data_format = ''channels_first'', normalized_shape = c\<rparr>)
            [n, c, 2 * d - Suc 0, 2 * h - Suc 0, 2 * w - Suc 0]
          = Inr [n, c, 2 * d - Suc 0, 2 * h - Suc 0, 2 * w - Suc 0]"
      using nt f(1) group_check_up [OF _ pos, of n] grp by auto
  qed (use pos chn in \<open>simp_all add: f grn_param_def\<close>)
  then show ?thesis
    using pos chn f(1) by (simp add: MedNeXtUpBlock_forward_def up_pad_def f(2-))
qed

lemma up_forward2:
  assumes init: "MedNeXtUpBlock_init shape_torch c c' er k res ''group'' ''2d'' g = Inr b"
    and k: "odd k"
    and pos: "0 < h" "0 < w"
    and grp: "n * (h * w) \<noteq> 1"
    and chn: "0 < er" "0 < c'"
  shows "MedNeXtUpBlock_forward shape_torch b [n, c, h, w] = Inr [n, c', 2 * h, 2 * w]"
proof -
  note f = up_init_fields [OF init]
  have "MedNeXtBlock_forward shape_torch b [n, c, h, w]
          = Inr [n, c', 2 * h - Suc 0, 2 * w - Suc 0]"
  proof (rule block_forward_fields2 [where e = "er * c"])
    show "shape_conv (conv1 b) [n, c, h, w] = Inr [n, c, 2 * h - Suc 0, 2 * w - Suc 0]"
      using k pos by (simp add: f conv_axis_up)
    show "norm_l b = Some (NormGroup \<lparr>num_groups = c, num_channels = c\<rparr>)"
      by (auto simp: f)
    show "norm_call shape_torch (NormGroup \<lparr>num_groups = c, num_channels = c\<rparr>)
            [n, c, 2 * h - Suc 0, 2 * w - Suc 0]
          = Inr [n, c, 2 * h - Suc 0, 2 * w - Suc 0]"
      using f(1) group_check_up2 [OF _ pos, of n] grp by auto
  qed (use pos chn in \<open>simp_all add: f grn_param_def\<close>)
  then show ?thesis
    using pos chn f(1) by (simp add: MedNeXtUpBlock_forward_def up_pad_def f(2-))
qed

lemma half_even: "even s \<Longrightarrow> 0 < s \<Longrightarrow> Suc ((s - Suc 0) div 2) = s div 2"
  by (auto elim!: evenE)

lemma list_all_take_drop_nth:
  "list_all P (take m (drop a xs)) \<Longrightarrow> a \<le> j \<Longrightarrow> j < a + m \<Longrightarrow> j < length xs \<Longrightarrow> P (xs ! j)"
  using list_all_length [of P "take m (drop a xs)"] nth_take [of "j - a" m "drop a xs"]
  by (auto simp: list_all_length dest!: spec [where x = "j - a"])

lemma dec_up_Inr:
  assumes "dec_up T cin cout er j (Some k) res nt dm g = Inr u"
  obtains "j < length er" "MedNeXtUpBlock_init T cin cout (er ! j) k res nt dm g = Inr u"
  using assms
  by (auto simp: dec_up_def local_kernel_size_def py_index_def split: if_splits
      elim!: bindE_InrE)

lemma enc_down_Inr:
  assumes "enc_down T cin cout er j (Some k) res nt dm g = Inr u"
  obtains "j < length er" "MedNeXtDownBlock_init T cin cout (er ! j) k res nt dm g = Inr u"
  using assms
  by (auto simp: enc_down_def local_kernel_size_def py_index_def split: if_splits
      elim!: bindE_InrE)

lemma out_forward3:
  "OutBlock_init cin ncls ''3d'' = Inr ob \<Longrightarrow> 0 < d \<Longrightarrow> 0 < h \<Longrightarrow> 0 < w \<Longrightarrow>
   0 < cin \<Longrightarrow> 0 < ncls \<Longrightarrow>
   OutBlock_forward shape_torch ob [n, cin, d, h, w] = Inr [n, ncls, d, h, w]"
  by (auto simp: OutBlock_init_def OutBlock_forward_def conv_of_dim_def nn_Conv_def)

lemma out_forward2:
  "OutBlock_init cin ncls ''2d'' = Inr ob \<Longrightarrow> 0 < h \<Longrightarrow> 0 < w \<Longrightarrow>
   0 < cin \<Longrightarrow> 0 < ncls \<Longrightarrow>
   OutBlock_forward shape_torch ob [n, cin, h, w] = Inr [n, ncls, h, w]"
  by (auto simp: OutBlock_init_def OutBlock_forward_def conv_of_dim_def nn_Conv_def)

lemma ds_out3:
  "ds_head ds cin ncls ''3d'' = Inr head \<Longrightarrow> 0 < d \<Longrightarrow> 0 < h \<Longrightarrow> 0 < w \<Longrightarrow>
   0 < cin \<Longrightarrow> 0 < ncls \<Longrightarrow>
   ds_out shape_torch ds head [n, cin, d, h, w]
     = Inr (if ds then Some [n, ncls, d, h, w] else None)"
  by (auto simp: ds_head_def ds_out_def out_forward3 split: if_splits elim!: bindE_InrE)

lemma ds_out2:
  "ds_head ds cin ncls ''2d'' = Inr head \<Longrightarrow> 0 < h \<Longrightarrow> 0 < w \<Longrightarrow>
   0 < cin \<Longrightarrow> 0 < ncls \<Longrightarrow>
   ds_out shape_torch ds head [n, cin, h, w]
     = Inr (if ds then Some [n, ncls, h, w] else None)"
  by (auto simp: ds_head_def ds_out_def out_forward2 split: if_splits elim!: bindE_InrE)

lemma decoder_init_fields:
  assumes "MedNeXtDecoder_init T inc c ncls exp_r ks ds res rud cs bcs nt dm g = Inr dec"
  shows "do_ds dec = ds"
    and "block_sequence T bcs 4 (exp_r_list exp_r bcs) 4 (c * 16) ks res nt dm g = Inr (bottleneck dec)"
    and "dec_up T (16 * c) (8 * c) (exp_r_list exp_r bcs) 5 ks rud nt dm g = Inr (up_3 dec)"
    and "block_sequence T bcs 5 (exp_r_list exp_r bcs) 5 (c * 8) ks res nt dm g = Inr (dec_block_3 dec)"
    and "dec_up T (8 * c) (4 * c) (exp_r_list exp_r bcs) 6 ks rud nt dm g = Inr (up_2 dec)"
    and "block_sequence T bcs 6 (exp_r_list exp_r bcs) 6 (c * 4) ks res nt dm g = Inr (dec_block_2 dec)"
    and "dec_up T (4 * c) (2 * c) (exp_r_list exp_r bcs) 7 ks rud nt dm g = Inr (up_1 dec)"
    and "block_sequence T bcs 7 (exp_r_list exp_r bcs) 7 (c * 2) ks res nt dm g = Inr (dec_block_1 dec)"
    and "dec_up T (2 * c) c (exp_r_list exp_r bcs) 8 ks rud nt dm g = Inr (up_0 dec)"
    and "block_sequence T bcs 8 (exp_r_list exp_r bcs) 8 c ks res nt dm g = Inr (dec_block_0 dec)"
    and "OutBlock_init c ncls dm = Inr (out_0 dec)"
    and "ds_head ds (c * 2) ncls dm = Inr (out_1 dec)"
    and "ds_head ds (c * 4) ncls dm = Inr (out_2 dec)"
    and "ds_head ds (c * 8) ncls dm = Inr (out_3 dec)"
    and "ds_head ds (c * 16) ncls dm = Inr (out_4 dec)"
    and "dm = ''2d'' \<or> dm = ''3d''"
    and "dec_outside_block_checkpointing dec = (cs = Some ''outside_block'')"
  using assms
  by (auto simp: MedNeXtDecoder_init_def assert_dim_def split: if_splits elim!: bindE_InrE)


lemma decoder_forward3:
  assumes init: "MedNeXtDecoder_init shape_torch inc c ncls exp_r (Some k) ds res rud cs bcs
                   nt ''3d'' g = Inr dec"
    and k: "odd k"
    and nt: "nt = ''group'' \<or> nt = ''layer''"
    and pos: "0 < d" "0 < h" "0 < w"
    and grp: "nt = ''group'' \<Longrightarrow> n * (d * h * w) \<noteq> 1"
    and ncls: "0 < ncls"
    and er: "list_all (\<lambda>e. 0 < e) (take 5 (drop 4 (exp_r_list exp_r bcs)))"
  shows "MedNeXtDecoder_forward shape_torch dec [n, 16 * c, d, h, w]
           (Multi [[n, 8 * c, 2 * d, 2 * h, 2 * w], [n, 4 * c, 4 * d, 4 * h, 4 * w],
                   [n, 2 * c, 8 * d, 8 * h, 8 * w], [n, c, 16 * d, 16 * h, 16 * w]])
         = Inr (if ds then
                  Multi [[n, ncls, 16 * d, 16 * h, 16 * w], [n, ncls, 8 * d, 8 * h, 8 * w],
                         [n, ncls, 4 * d, 4 * h, 4 * w], [n, ncls, 2 * d, 2 * h, 2 * w],
                         [n, ncls, d, h, w]]
                else Single [n, ncls, 16 * d, 16 * h, 16 * w])"
proof -
  note f = decoder_init_fields [OF init]
  from f(3) have l3: "5 < length (exp_r_list exp_r bcs)" and
    u3: "MedNeXtUpBlock_init shape_torch (16 * c) (8 * c) (exp_r_list exp_r bcs ! 5) k rud nt ''3d'' g = Inr (up_3 dec)"
    by (auto elim: dec_up_Inr)
  from f(5) have l2: "6 < length (exp_r_list exp_r bcs)" and
    u2: "MedNeXtUpBlock_init shape_torch (8 * c) (4 * c) (exp_r_list exp_r bcs ! 6) k rud nt ''3d'' g = Inr (up_2 dec)"
    by (auto elim: dec_up_Inr)
  from f(7) have l1: "7 < length (exp_r_list exp_r bcs)" and
    u1: "MedNeXtUpBlock_init shape_torch (4 * c) (2 * c) (exp_r_list exp_r bcs ! 7) k rud nt ''3d'' g = Inr (up_1 dec)"
    by (auto elim: dec_up_Inr)
  from f(9) have l0: "8 < length (exp_r_list exp_r bcs)" and
    u0: "MedNeXtUpBlock_init shape_torch (2 * c) c (exp_r_list exp_r bcs ! 8) k rud nt ''3d'' g = Inr (up_0 dec)"
    by (auto elim: dec_up_Inr)
  have erj: "4 \<le> j \<Longrightarrow> j \<le> 8 \<Longrightarrow> j < length (exp_r_list exp_r bcs)
               \<Longrightarrow> 0 < exp_r_list exp_r bcs ! j" for j
    using list_all_take_drop_nth [OF er, of j] by simp
  from up_init_fields(1) [OF u0] have c: "0 < c" by simp
  then have c16: "0 < 16 * c" "0 < 8 * c" "0 < 4 * c" "0 < 2 * c" by simp_all
  have s4: "Sequential_forward shape_torch (bottleneck dec) [n, 16 * c, d, h, w]
      = Inr [n, 16 * c, d, h, w]"
    using sequence_forward3 [OF f(2) k nt, of "d" "h" "w" n] pos grp erj [of 4]
    by (auto simp: mult.commute)
  have o4: "ds_out shape_torch ds (out_4 dec) [n, 16 * c, d, h, w]
      = Inr (if ds then Some [n, ncls, d, h, w] else None)"
    using ds_out3 [OF f(15), of "d" "h" "w" n] pos c ncls
    by (auto simp: mult.commute)
  have p3: "MedNeXtUpBlock_forward shape_torch (up_3 dec) [n, 16 * c, d, h, w]
      = Inr [n, 8 * c, 2 * d, 2 * h, 2 * w]"
    using up_forward3 [OF u3 k nt, of "d" "h" "w" n] pos grp erj [of 5] l3 c c16
    by auto
  have s3: "Sequential_forward shape_torch (dec_block_3 dec) [n, 8 * c, 2 * d, 2 * h, 2 * w]
      = Inr [n, 8 * c, 2 * d, 2 * h, 2 * w]"
    using sequence_forward3 [OF f(4) k nt, of "2 * d" "2 * h" "2 * w" n] pos grp erj [of 5]
    by (auto simp: mult.commute)
  have o3: "ds_out shape_torch ds (out_3 dec) [n, 8 * c, 2 * d, 2 * h, 2 * w]
      = Inr (if ds then Some [n, ncls, 2 * d, 2 * h, 2 * w] else None)"
    using ds_out3 [OF f(14), of "2 * d" "2 * h" "2 * w" n] pos c ncls
    by (auto simp: mult.commute)
  have p2: "MedNeXtUpBlock_forward shape_torch (up_2 dec) [n, 8 * c, 2 * d, 2 * h, 2 * w]
      = Inr [n, 4 * c, 4 * d, 4 * h, 4 * w]"
    using up_forward3 [OF u2 k nt, of "2 * d" "2 * h" "2 * w" n] pos grp erj [of 6] l2 c c16
    by auto
  have s2: "Sequential_forward shape_torch (dec_block_2 dec) [n, 4 * c, 4 * d, 4 * h, 4 * w]
      = Inr [n, 4 * c, 4 * d, 4 * h, 4 * w]"
    using sequence_forward3 [OF f(6) k nt, of "4 * d" "4 * h" "4 * w" n] pos grp erj [of 6]
    by (auto simp: mult.commute)
  have o2: "ds_out shape_torch ds (out_2 dec) [n, 4 * c, 4 * d, 4 * h, 4 * w]
      = Inr (if ds then Some [n, ncls, 4 * d, 4 * h, 4 * w] else None)"
    using ds_out3 [OF f(13), of "4 * d" "4 * h" "4 * w" n] pos c ncls
    by (auto simp: mult.commute)
  have p1: "MedNeXtUpBlock_forward shape_torch (up_1 dec) [n, 4 * c, 4 * d, 4 * h, 4 * w]
      = Inr [n, 2 * c, 8 * d, 8 * h, 8 * w]"
    using up_forward3 [OF u1 k nt, of "4 * d" "4 * h" "4 * w" n] pos grp erj [of 7] l1 c c16
    by auto
  have s1: "Sequential_forward shape_torch (dec_block_1 dec) [n, 2 * c, 8 * d, 8 * h, 8 * w]
      = Inr [n, 2 * c, 8 * d, 8 * h, 8 * w]"
    using sequence_forward3 [OF f(8) k nt, of "8 * d" "8 * h" "8 * w" n] pos grp erj [of 7]
    by (auto simp: mult.commute)
  have o1: "ds_out shape_torch ds (out_1 dec) [n, 2 * c, 8 * d, 8 * h, 8 * w]
      = Inr (if ds then Some [n, ncls, 8 * d, 8 * h, 8 * w] else None)"
    using ds_out3 [OF f(12), of "8 * d" "8 * h" "8 * w" n] pos c ncls
    by (auto simp: mult.commute)
  have p0: "MedNeXtUpBlock_forward shape_torch (up_0 dec) [n, 2 * c, 8 * d, 8 * h, 8 * w]
      = Inr [n, c, 16 * d, 16 * h, 16 * w]"
    using up_forward3 [OF u0 k nt, of "8 * d" "8 * h" "8 * w" n] pos grp erj [of 8] l0 c c16
    by auto
  have s0: "Sequential_forward shape_torch (dec_block_0 dec) [n, c, 16 * d, 16 * h, 16 * w]
      = Inr [n, c, 16 * d, 16 * h, 16 * w]"
    using sequence_forward3 [OF f(10) k nt, of "16 * d" "16 * h" "16 * w" n] pos grp erj [of 8]
    by (auto simp: mult.commute)
  have o0: "OutBlock_forward shape_torch (out_0 dec) [n, c, 16 * d, 16 * h, 16 * w]
      = Inr [n, ncls, 16 * d, 16 * h, 16 * w]"
    using out_forward3 [OF f(11), of "16 * d" "16 * h" "16 * w" n] pos c ncls by simp
  show ?thesis
    by (simp add: MedNeXtDecoder_forward_def unpack4_def py_iter_def f(1)
        s4 o4 p3 s3 o3 p2 s2 o2 p1 s1 o1 p0 s0 o0)
qed

lemma decoder_forward2:
  assumes init: "MedNeXtDecoder_init shape_torch inc c ncls exp_r (Some k) ds res rud cs bcs
                   ''group'' ''2d'' g = Inr dec"
    and k: "odd k"
    and pos: "0 < h" "0 < w"
    and grp: "n * (h * w) \<noteq> 1"
    and ncls: "0 < ncls"
    and er: "list_all (\<lambda>e. 0 < e) (take 5 (drop 4 (exp_r_list exp_r bcs)))"
  shows "MedNeXtDecoder_forward shape_torch dec [n, 16 * c, h, w]
           (Multi [[n, 8 * c, 2 * h, 2 * w], [n, 4 * c, 4 * h, 4 * w],
                   [n, 2 * c, 8 * h, 8 * w], [n, c, 16 * h, 16 * w]])
         = Inr (if ds then
                  Multi [[n, ncls, 16 * h, 16 * w], [n, ncls, 8 * h, 8 * w],
                         [n, ncls, 4 * h, 4 * w], [n, ncls, 2 * h, 2 * w],
                         [n, ncls, h, w]]
                else Single [n, ncls, 16 * h, 16 * w])"
proof -
  note f = decoder_init_fields [OF init]
  from f(3) have l3: "5 < length (exp_r_list exp_r bcs)" and
    u3: "MedNeXtUpBlock_init shape_torch (16 * c) (8 * c) (exp_r_list exp_r bcs ! 5) k rud ''group'' ''2d'' g = Inr (up_3 dec)"
    by (auto elim: dec_up_Inr)
  from f(5) have l2: "6 < length (exp_r_list exp_r bcs)" and
    u2: "MedNeXtUpBlock_init shape_torch (8 * c) (4 * c) (exp_r_list exp_r bcs ! 6) k rud ''group'' ''2d'' g = Inr (up_2 dec)"
    by (auto elim: dec_up_Inr)
  from f(7) have l1: "7 < length (exp_r_list exp_r bcs)" and
    u1: "MedNeXtUpBlock_init shape_torch (4 * c) (2 * c) (exp_r_list exp_r bcs ! 7) k rud ''group'' ''2d'' g = Inr (up_1 dec)"
    by (auto elim: dec_up_Inr)
  from f(9) have l0: "8 < length (exp_r_list exp_r bcs)" and
    u0: "MedNeXtUpBlock_init shape_torch (2 * c) c (exp_r_list exp_r bcs ! 8) k rud ''group'' ''2d'' g = Inr (up_0 dec)"
    by (auto elim: dec_up_Inr)
  have erj: "4 \<le> j \<Longrightarrow> j \<le> 8 \<Longrightarrow> j < length (exp_r_list exp_r bcs)
               \<Longrightarrow> 0 < exp_r_list exp_r bcs ! j" for j
    using list_all_take_drop_nth [OF er, of j] by simp
  from up_init_fields(1) [OF u0] have c: "0 < c" by simp
  then have c16: "0 < 16 * c" "0 < 8 * c" "0 < 4 * c" "0 < 2 * c" by simp_all
  have s4: "Sequential_forward shape_torch (bottleneck dec) [n, 16 * c, h, w]
      = Inr [n, 16 * c, h, w]"
    using sequence_forward2 [OF f(2) k, of "h" "w" n] pos grp erj [of 4]
    by (auto simp: mult.commute)
  have o4: "ds_out shape_torch ds (out_4 dec) [n, 16 * c, h, w]
      = Inr (if ds then Some [n, ncls, h, w] else None)"
    using ds_out2 [OF f(15), of "h" "w" n] pos c ncls
    by (auto simp: mult.commute)
  have p3: "MedNeXtUpBlock_forward shape_torch (up_3 dec) [n, 16 * c, h, w]
      = Inr [n, 8 * c, 2 * h, 2 * w]"
    using up_forward2 [OF u3 k, of "h" "w" n] pos grp erj [of 5] l3 c c16
    by auto
  have s3: "Sequential_forward shape_torch (dec_block_3 dec) [n, 8 * c, 2 * h, 2 * w]
      = Inr [n, 8 * c, 2 * h, 2 * w]"
    using sequence_forward2 [OF f(4) k, of "2 * h" "2 * w" n] pos grp erj [of 5]
    by (auto simp: mult.commute)
  have o3: "ds_out shape_torch ds (out_3 dec) [n, 8 * c, 2 * h, 2 * w]
      = Inr (if ds then Some [n, ncls, 2 * h, 2 * w] else None)"
    using ds_out2 [OF f(14), of "2 * h" "2 * w" n] pos c ncls
    by (auto simp: mult.commute)
  have p2: "MedNeXtUpBlock_forward shape_torch (up_2 dec) [n, 8 * c, 2 * h, 2 * w]
      = Inr [n, 4 * c, 4 * h, 4 * w]"
    using up_forward2 [OF u2 k, of "2 * h" "2 * w" n] pos grp erj [of 6] l2 c c16
    by auto
  have s2: "Sequential_forward shape_torch (dec_block_2 dec) [n, 4 * c, 4 * h, 4 * w]
      = Inr [n, 4 * c, 4 * h, 4 * w]"
    using sequence_forward2 [OF f(6) k, of "4 * h" "4 * w" n] pos grp erj [of 6]
    by (auto simp: mult.commute)
  have o2: "ds_out shape_torch ds (out_2 dec) [n, 4 * c, 4 * h, 4 * w]
      = Inr (if ds then Some [n, ncls, 4 * h, 4 * w] else None)"
    using ds_out2 [OF f(13), of "4 * h" "4 * w" n] pos c ncls
    by (auto simp: mult.commute)
  have p1: "MedNeXtUpBlock_forward shape_torch (up_1 dec) [n, 4 * c, 4 * h, 4 * w]
      = Inr [n, 2 * c, 8 * h, 8 * w]"
    using up_forward2 [OF u1 k, of "4 * h" "4 * w" n] pos grp erj [of 7] l1 c c16
    by auto
  have s1: "Sequential_forward shape_torch (dec_block_1 dec) [n, 2 * c, 8 * h, 8 * w]
      = Inr [n, 2 * c, 8 * h, 8 * w]"
    using sequence_forward2 [OF f(8) k, of "8 * h" "8 * w" n] pos grp erj [of 7]
    by (auto simp: mult.commute)
  have o1: "ds_out shape_torch ds (out_1 dec) [n, 2 * c, 8 * h, 8 * w]
      = Inr (if ds then Some [n, ncls, 8 * h, 8 * w] else None)"
    using ds_out2 [OF f(12), of "8 * h" "8 * w" n] pos c ncls
    by (auto simp: mult.commute)
  have p0: "MedNeXtUpBlock_forward shape_torch (up_0 dec) [n, 2 * c, 8 * h, 8 * w]
      = Inr [n, c, 16 * h, 16 * w]"
    using up_forward2 [OF u0 k, of "8 * h" "8 * w" n] pos grp erj [of 8] l0 c c16
    by auto
  have s0: "Sequential_forward shape_torch (dec_block_0 dec) [n, c, 16 * h, 16 * w]
      = Inr [n, c, 16 * h, 16 * w]"
    using sequence_forward2 [OF f(10) k, of "16 * h" "16 * w" n] pos grp erj [of 8]
    by (auto simp: mult.commute)
  have o0: "OutBlock_forward shape_torch (out_0 dec) [n, c, 16 * h, 16 * w]
      = Inr [n, ncls, 16 * h, 16 * w]"
    using out_forward2 [OF f(11), of "16 * h" "16 * w" n] pos c ncls by simp
  show ?thesis
    by (simp add: MedNeXtDecoder_forward_def unpack4_def py_iter_def f(1)
        s4 o4 p3 s3 o3 p2 s2 o2 p1 s1 o1 p0 s0 o0)
qed

lemma encoder_init_fields:
  assumes "MedNeXtEncoder_init T inc c exp_r ks res rud cs bcs nt dm g = Inr enc"
  shows "return_skips enc = None"
    and "stem enc = \<lparr>transposed = False, ndim = (if dm = ''2d'' then 2 else 3), c_in = inc,
                      c_out = c, ksize = 1, stride = 1, padding = 0, groups = 1\<rparr>"
    and "block_sequence T bcs 0 (exp_r_list exp_r bcs) 0 c ks res nt dm g = Inr (enc_block_0 enc)"
    and "enc_down T c (2 * c) (exp_r_list exp_r bcs) 1 ks rud nt dm False = Inr (down_0 enc)"
    and "block_sequence T bcs 1 (exp_r_list exp_r bcs) 1 (c * 2) ks res nt dm g = Inr (enc_block_1 enc)"
    and "enc_down T (2 * c) (4 * c) (exp_r_list exp_r bcs) 2 ks rud nt dm g = Inr (down_1 enc)"
    and "block_sequence T bcs 2 (exp_r_list exp_r bcs) 2 (c * 4) ks res nt dm g = Inr (enc_block_2 enc)"
    and "enc_down T (4 * c) (8 * c) (exp_r_list exp_r bcs) 3 ks rud nt dm g = Inr (down_2 enc)"
    and "block_sequence T bcs 3 (exp_r_list exp_r bcs) 3 (c * 8) ks res nt dm g = Inr (enc_block_3 enc)"
    and "enc_down T (8 * c) (16 * c) (exp_r_list exp_r bcs) 4 ks rud nt dm g = Inr (down_3 enc)"
    and "dm = ''2d'' \<or> dm = ''3d''"
    and "enc_outside_block_checkpointing enc = (cs = Some ''outside_block'')"
  using assms
  by (auto simp: MedNeXtEncoder_init_def assert_dim_def conv_of_dim_def nn_Conv_def
      split: if_splits elim!: bindE_InrE)

lemma half_mult [simp]:
  "0 < d \<Longrightarrow> Suc ((16 * d - Suc 0) div 2) = 8 * d"
  "0 < d \<Longrightarrow> Suc ((8 * d - Suc 0) div 2) = 4 * d"
  "0 < d \<Longrightarrow> Suc ((4 * d - Suc 0) div 2) = 2 * d"
  "0 < d \<Longrightarrow> Suc ((2 * d - Suc 0) div 2) = d"
  by (cases d; simp)+

lemma encoder_forward3:
  assumes f: "stem enc = \<lparr>transposed = False, ndim = 3, c_in = inc,
                      c_out = c, ksize = 1, stride = 1, padding = 0, groups = 1\<rparr>"
    "block_sequence shape_torch bcs 0 er 0 c (Some k) res nt ''3d'' g = Inr (enc_block_0 enc)"
    "enc_down shape_torch c (2 * c) er 1 (Some k) rud nt ''3d'' False = Inr (down_0 enc)"
    "block_sequence shape_torch bcs 1 er 1 (c * 2) (Some k) res nt ''3d'' g = Inr (enc_block_1 enc)"
    "enc_down shape_torch (2 * c) (4 * c) er 2 (Some k) rud nt ''3d'' g = Inr (down_1 enc)"
    "block_sequence shape_torch bcs 2 er 2 (c * 4) (Some k) res nt ''3d'' g = Inr (enc_block_2 enc)"
    "enc_down shape_torch (4 * c) (8 * c) er 3 (Some k) rud nt ''3d'' g = Inr (down_2 enc)"
    "block_sequence shape_torch bcs 3 er 3 (c * 8) (Some k) res nt ''3d'' g = Inr (enc_block_3 enc)"
    "enc_down shape_torch (8 * c) (16 * c) er 4 (Some k) rud nt ''3d'' g = Inr (down_3 enc)"
    and k: "odd k" and nt: "nt = ''group'' \<or> nt = ''layer''"
    and pos: "0 < d" "0 < h" "0 < w"
    and grp: "nt = ''group'' \<Longrightarrow> n * (d * h * w) \<noteq> 1"
    and inc: "0 < inc"
    and er: "list_all (\<lambda>e. 0 < e) (take 5 er)"
  shows "MedNeXtEncoder_forward shape_torch (enc\<lparr>return_skips := a\<rparr>)
           [n, inc, 16 * d, 16 * h, 16 * w]
         = bindE (getattr a) (\<lambda>rs.
             if rs then
               Inr (Multi [[n, c, 16 * d, 16 * h, 16 * w], [n, 2 * c, 8 * d, 8 * h, 8 * w],
                           [n, 4 * c, 4 * d, 4 * h, 4 * w], [n, 8 * c, 2 * d, 2 * h, 2 * w],
                           [n, 16 * c, d, h, w]])
             else Inr (Single [n, 16 * c, d, h, w]))"
proof -
  from f(3) have l0: "1 < length er" and
    d0: "MedNeXtDownBlock_init shape_torch c (2 * c) (er ! 1) k rud nt ''3d'' False = Inr (down_0 enc)"
    by (auto elim: enc_down_Inr)
  from f(5) have l1: "2 < length er" and
    d1: "MedNeXtDownBlock_init shape_torch (2 * c) (4 * c) (er ! 2) k rud nt ''3d'' g = Inr (down_1 enc)"
    by (auto elim: enc_down_Inr)
  from f(7) have l2: "3 < length er" and
    d2: "MedNeXtDownBlock_init shape_torch (4 * c) (8 * c) (er ! 3) k rud nt ''3d'' g = Inr (down_2 enc)"
    by (auto elim: enc_down_Inr)
  from f(9) have l3: "4 < length er" and
    d3: "MedNeXtDownBlock_init shape_torch (8 * c) (16 * c) (er ! 4) k rud nt ''3d'' g = Inr (down_3 enc)"
    by (auto elim: enc_down_Inr)
  have erj: "j \<le> 4 \<Longrightarrow> j < length er \<Longrightarrow> 0 < er ! j" for j
    using list_all_take_drop_nth [of "\<lambda>e. 0 < e" 5 0 er j] er by simp
  from down_init_fields(1) [OF d0] have c: "0 < c" by simp
  then have c16: "0 < 16 * c" "0 < 8 * c" "0 < 4 * c" "0 < 2 * c" by simp_all
  have st: "shape_conv (stem enc) [n, inc, 16 * d, 16 * h, 16 * w] = Inr [n, c, 16 * d, 16 * h, 16 * w]"
    using pos inc c by (simp add: f(1))
  have s0: "Sequential_forward shape_torch (enc_block_0 enc) [n, c, 16 * d, 16 * h, 16 * w]
      = Inr [n, c, 16 * d, 16 * h, 16 * w]"
    using sequence_forward3 [OF f(2) k nt, of "16 * d" "16 * h" "16 * w" n] pos grp erj [of 0]
    by (auto simp: mult.commute)
  have p0: "MedNeXtDownBlock_forward shape_torch (down_0 enc) [n, c, 16 * d, 16 * h, 16 * w]
      = Inr [n, 2 * c, 8 * d, 8 * h, 8 * w]"
    using down_forward3 [OF d0 k nt, of "16 * d" "16 * h" "16 * w" n] pos grp erj [of 1] l0 c c16
    by auto
  have s1: "Sequential_forward shape_torch (enc_block_1 enc) [n, 2 * c, 8 * d, 8 * h, 8 * w]
      = Inr [n, 2 * c, 8 * d, 8 * h, 8 * w]"
    using sequence_forward3 [OF f(4) k nt, of "8 * d" "8 * h" "8 * w" n] pos grp erj [of 1]
    by (auto simp: mult.commute)
  have p1: "MedNeXtDownBlock_forward shape_torch (down_1 enc) [n, 2 * c, 8 * d, 8 * h, 8 * w]
      = Inr [n, 4 * c, 4 * d, 4 * h, 4 * w]"
    using down_forward3 [OF d1 k nt, of "8 * d" "8 * h" "8 * w" n] pos grp erj [of 2] l1 c c16
    by auto
  have s2: "Sequential_forward shape_torch (enc_block_2 enc) [n, 4 * c, 4 * d, 4 * h, 4 * w]
      = Inr [n, 4 * c, 4 * d, 4 * h, 4 * w]"
    using sequence_forward3 [OF f(6) k nt, of "4 * d" "4 * h" "4 * w" n] pos grp erj [of 2]
    by (auto simp: mult.commute)
  have p2: "MedNeXtDownBlock_forward shape_torch (down_2 enc) [n, 4 * c, 4 * d, 4 * h, 4 * w]
      = Inr [n, 8 * c, 2 * d, 2 * h, 2 * w]"
    using down_forward3 [OF d2 k nt, of "4 * d" "4 * h" "4 * w" n] pos grp erj [of 3] l2 c c16
    by auto
  have s3: "Sequential_forward shape_torch (enc_block_3 enc) [n, 8 * c, 2 * d, 2 * h, 2 * w]
      = Inr [n, 8 * c, 2 * d, 2 * h, 2 * w]"
    using sequence_forward3 [OF f(8) k nt, of "2 * d" "2 * h" "2 * w" n] pos grp erj [of 3]
    by (auto simp: mult.commute)
  have p3: "MedNeXtDownBlock_forward shape_torch (down_3 enc) [n, 8 * c, 2 * d, 2 * h, 2 * w]
      = Inr [n, 16 * c, d, h, w]"
    using down_forward3 [OF d3 k nt, of "2 * d" "2 * h" "2 * w" n] pos grp erj [of 4] l3 c c16
    by auto
  show ?thesis
    by (simp add: MedNeXtEncoder_forward_def st s0 p0 s1 p1 s2 p2 s3 p3 del: shape_conv_batched)
qed

lemmas net_init_defs = MedNeXt_init_def MedNeXtEncoder_init_def MedNeXtDecoder_init_def
  block_sequence_def enc_down_def dec_up_def py_index_def py_listcomp_def local_kernel_size_def
  exp_r_list_def assert_checkpoint_style_def assert_dim_def MedNeXtDownBlock_init_def
  MedNeXtUpBlock_init_def OutBlock_init_def ds_head_def init_defs

lemma record_none: "return_skips enc = None \<Longrightarrow> enc\<lparr>return_skips := None\<rparr> = enc"
  by simp

lemma net_init_fields:
  assumes "MedNeXt_init T inc c ncls exp_r (Some k) eks dks ds res rud cs bcs nt dm g = Inr net"
  shows "MedNeXtEncoder_init T inc c exp_r (Some k) res rud cs bcs nt dm g = Inr (encoder net)"
    and "MedNeXtDecoder_init T inc c ncls exp_r (Some k) ds res rud cs bcs nt dm g
           = Inr (decoder net)"
    and "outside_block_checkpointing net = (cs = Some ''outside_block'')"
    and "net_dummy_tensor net = None"
  using assms by (auto simp: MedNeXt_init_def elim!: bindE_InrE)

lemma encoder_forward_never_returns:
  assumes "MedNeXtEncoder_init T inc c exp_r ks res rud cs bcs nt dm g = Inr enc"
  shows "MedNeXtEncoder_forward T enc x \<noteq> Inr r"
proof
  assume "MedNeXtEncoder_forward T enc x = Inr r"
  then show False
    by (auto simp: MedNeXtEncoder_forward_def encoder_init_fields(1) [OF assms]
        elim!: bindE_InrE)
qed

lemma enc_down_init:
  assumes "enc_down T cin cout er j ks res nt dm g = Inr b"
  obtains e k where "MedNeXtDownBlock_init T cin cout e k res nt dm g = Inr b"
  using assms
  by (auto simp: enc_down_def local_kernel_size_def split: option.splits elim!: bindE_InrE)

lemma map_sum_bindE: "map_sum id f (bindE m k) = bindE m (\<lambda>v. map_sum id f (k v))"
  by (cases m) simp_all

lemma encoder_init_checkpoint:
  "MedNeXtEncoder_init T inc c exp_r ks res rud (Some ''outside_block'') bcs nt dm g
     = map_sum id (\<lambda>e. e\<lparr>enc_outside_block_checkpointing := True\<rparr>)
         (MedNeXtEncoder_init T inc c exp_r ks res rud None bcs nt dm g)"
  by (simp add: MedNeXtEncoder_init_def assert_checkpoint_style_def map_sum_bindE
      cong del: bindE_cong)

lemma decoder_init_checkpoint:
  "MedNeXtDecoder_init T inc c ncls exp_r ks ds res rud (Some ''outside_block'') bcs nt dm g
     = map_sum id (\<lambda>e. e\<lparr>dec_outside_block_checkpointing := True\<rparr>)
         (MedNeXtDecoder_init T inc c ncls exp_r ks ds res rud None bcs nt dm g)"
  by (simp add: MedNeXtDecoder_init_def assert_checkpoint_style_def map_sum_bindE
      cong del: bindE_cong)

lemma encoder_forward_flag [simp]:
  "MedNeXtEncoder_forward T (e\<lparr>enc_outside_block_checkpointing := b\<rparr>) x
     = MedNeXtEncoder_forward T e x"
  by (simp add: MedNeXtEncoder_forward_def cong del: bindE_cong)

lemma decoder_forward_flag [simp]:
  "MedNeXtDecoder_forward T (e\<lparr>dec_outside_block_checkpointing := b\<rparr>) x skips
     = MedNeXtDecoder_forward T e x skips"
  by (simp add: MedNeXtDecoder_forward_def cong del: bindE_cong)

section \<open>Facts about tensors with floating-point entries\<close>

lemma val_torch_sel:
  "t_conv (val_torch V) =
     (\<lambda>a c x. bindE (shape_conv c (shape x)) (\<lambda>s. Inr (mk s (\<lambda>i. to_float (conv_v V a c x i)))))"
  "t_group_norm (val_torch V) =
     (\<lambda>g x. bindE (shape_group_norm g (shape x))
              (\<lambda>s. Inr (mk s (\<lambda>i. to_float (group_norm_v V g x i)))))"
  "t_gelu (val_torch V) = ew1 (\<lambda>v. to_float (gelu_v V v))"
  "t_zeros (val_torch V) = (\<lambda>s. mk s (\<lambda>i. Fin 0))"
  "t_ones (val_torch V) = (\<lambda>s. mk s (\<lambda>i. Fin 1))"
  "t_norm (val_torch V) = val_norm"
  "t_mean1 (val_torch V) = val_mean1"
  "t_add_scalar (val_torch V) = (\<lambda>x r. ew1 (\<lambda>v. fl_add v (Fin r)) x)"
  "t_add (val_torch V) = ew2 fl_add"
  "t_sub (val_torch V) = ew2 fl_sub"
  "t_mul (val_torch V) = ew2 fl_mul"
  "t_div (val_torch V) = ew2 fl_div"
  "t_pow (val_torch V) = (\<lambda>x n. ew1 (\<lambda>v. fl_pow v n) x)"
  "t_sqrt (val_torch V) = ew1 fl_sqrt"
  "t_pad (val_torch V) = val_pad"
  "t_index_none3 (val_torch V) = val_index_none3"
  by (simp_all add: val_torch_def)

lemma shape_mk [simp]: "shape (mk s f) = s"
  by (simp add: mk_def)

lemma elems_mk: "elems (mk s f) i = (if valid_index s i then f i else Fin 0)"
  by (simp add: mk_def)

lemma shape_ew1 [simp]: "shape (ew1 f a) = shape a"
  by (simp add: ew1_def)

lemma mk_cong: "(\<And>i. valid_index s i \<Longrightarrow> f i = g i) \<Longrightarrow> mk s f = mk s g"
  by (auto simp: mk_def)

lemma bidx_same_length:
  "list_all2 (<) i s \<Longrightarrow> map2 (\<lambda>e k. if e = Suc 0 then 0 else k) s i = i"
  by (induction i s rule: list_all2_induct) auto

lemma bidx_valid: "valid_index s i \<Longrightarrow> bidx s i = i"
  unfolding valid_index_def bidx_def
  by (frule list_all2_lengthD) (simp add: bidx_same_length)

lemma ew2_shape:
  "broadcast_shapes (shape a) (shape b) = Inr s \<Longrightarrow> \<exists>r. ew2 f a b = Inr r \<and> shape r = s"
  by (simp add: ew2_def)

lemma float_max_pos: "0 < float_max"
  by (simp add: float_max_def)

lemma ovf_zero [simp]: "ovf 0 = Fin 0"
  using float_max_pos by (simp add: ovf_def)

lemma fl_mul_zero_fin: "is_fin v \<Longrightarrow> fl_mul (Fin 0) v = Fin 0"
  by (cases v) simp_all

lemma fl_add_zero_left: "to_float v = v \<Longrightarrow> fl_add (Fin 0) v = v"
  by (cases v) simp_all

lemma to_float_ovf [simp]: "to_float (ovf r) = ovf r"
  using float_max_pos by (auto simp: ovf_def)

lemma to_float_idem [simp]: "to_float (to_float v) = to_float v"
  by (cases v) simp_all

lemma valid_index_indices: "valid_index s i \<Longrightarrow> i \<in> set (indices s)"
  unfolding valid_index_def
  by (induction i s rule: list_all2_induct) auto

lemma all_finiteD: "all_finite p \<Longrightarrow> valid_index (shape p) i \<Longrightarrow> is_fin (elems p i)"
  by (auto simp: all_finite_def list_all_iff dest: valid_index_indices)

lemma ew2_mul_zero:
  assumes "broadcast_shapes (shape a) (shape b) = Inr (shape b)"
    and "\<And>i. elems a i = Fin 0"
    and "\<And>i. valid_index (shape b) i \<Longrightarrow> is_fin (elems b i)"
  shows "ew2 fl_mul a b = Inr (mk (shape b) (\<lambda>i. Fin 0))"
  using assms by (auto simp: ew2_def bidx_valid fl_mul_zero_fin intro!: mk_cong)

lemma ew2_add_zero:
  "broadcast_shapes (shape a) (shape b) = Inr s \<Longrightarrow> (\<And>i. elems a i = Fin 0) \<Longrightarrow>
   (\<And>i. elems b i = Fin 0) \<Longrightarrow> ew2 fl_add a b = Inr (mk s (\<lambda>i. Fin 0))"
  by (simp add: ew2_def)

lemma ew2_zero_add:
  "(\<And>i. valid_index s i \<Longrightarrow> to_float (f i) = f i) \<Longrightarrow>
   ew2 fl_add (mk s (\<lambda>i. Fin 0)) (mk s f) = Inr (mk s f)"
  by (auto simp: ew2_def elems_mk bidx_valid fl_add_zero_left intro!: mk_cong)

lemma elems_zeros [simp]: "elems (mk s (\<lambda>i. Fin 0)) i = Fin 0"
  by (simp add: elems_mk)

lemma grn_ratio_shape3:
  assumes "dim_s b = ''3d''"
  shows "\<exists>nx. MedNeXtBlock_grn_ratio (val_torch V) b (mk [n, e, d, h, w] f) = Inr nx
            \<and> shape nx = [n, e, 1, 1, 1]"
proof -
  let ?x = "mk [n, e, d, h, w] f"
  obtain gx where gx: "val_norm 3 ?x = Inr gx" "shape gx = [n, e, 1, 1, 1]"
    by (simp add: val_norm_def)
  obtain m where m: "val_mean1 gx = Inr m" "shape m = [n, 1, 1, 1, 1]"
    by (simp add: val_mean1_def gx)
  obtain nx where nx: "ew2 fl_div gx (ew1 (\<lambda>v. fl_add v (Fin (1 / 1000000))) m) = Inr nx"
      "shape nx = [n, e, 1, 1, 1]"
    using ew2_shape [of gx "ew1 (\<lambda>v. fl_add v (Fin (1 / 1000000))) m" "[n, e, 1, 1, 1]" fl_div]
    by (auto simp: gx m)
  show ?thesis
    by (simp add: MedNeXtBlock_grn_ratio_def val_torch_sel assms gx m nx)
qed

lemma grn_ratio_shape2:
  assumes "dim_s b = ''2d''"
  shows "\<exists>nx. MedNeXtBlock_grn_ratio (val_torch V) b (mk [n, e, h, w] f) = Inr nx
            \<and> shape nx = [n, e, 1, 1]"
proof -
  let ?x = "mk [n, e, h, w] f"
  obtain gx where gx: "val_norm 2 ?x = Inr gx" "shape gx = [n, e, 1, 1]"
    by (simp add: val_norm_def)
  obtain m where m: "val_mean1 gx = Inr m" "shape m = [n, 1, 1, 1]"
    by (simp add: val_mean1_def gx)
  obtain nx where nx: "ew2 fl_div gx (ew1 (\<lambda>v. fl_add v (Fin (1 / 1000000))) m) = Inr nx"
      "shape nx = [n, e, 1, 1]"
    using ew2_shape [of gx "ew1 (\<lambda>v. fl_add v (Fin (1 / 1000000))) m" "[n, e, 1, 1]" fl_div]
    by (auto simp: gx m)
  show ?thesis
    by (simp add: MedNeXtBlock_grn_ratio_def val_torch_sel assms gx m nx)
qed

lemma grn_noop:
  assumes ratio: "MedNeXtBlock_grn_ratio (val_torch V) b (mk s f) = Inr nx"
    and bc: "broadcast_shapes s (shape nx) = Inr s"
      "broadcast_shapes z s = Inr s" "broadcast_shapes s z = Inr s"
    and par: "grn_gamma b = Some (mk z (\<lambda>i. Fin 0))" "grn_beta b = Some (mk z (\<lambda>i. Fin 0))"
    and rep: "\<And>i. to_float (f i) = f i"
    and fin: "\<And>p. ew2 fl_mul (mk s f) nx = Inr p \<Longrightarrow> all_finite p"
  shows "MedNeXtBlock_grn (val_torch V) b (mk s f) = Inr (mk s f)"
proof -
  obtain xn where xn: "ew2 fl_mul (mk s f) nx = Inr xn" "shape xn = s"
    using ew2_shape [of "mk s f" nx s fl_mul] bc(1) by auto
  from fin [OF xn(1)] have "all_finite xn" .
  then have fin': "is_fin (elems xn i)" if "valid_index (shape xn) i" for i
    using that by (rule all_finiteD)
  have g1: "ew2 fl_mul (mk z (\<lambda>i. Fin 0)) xn = Inr (mk s (\<lambda>i. Fin 0))"
    using ew2_mul_zero [of "mk z (\<lambda>i. Fin 0)" xn] fin' bc(2) by (simp add: xn)
  have g2: "ew2 fl_add (mk s (\<lambda>i. Fin 0)) (mk z (\<lambda>i. Fin 0)) = Inr (mk s (\<lambda>i. Fin 0))"
    by (rule ew2_add_zero) (simp_all add: bc)
  show ?thesis
    by (simp add: MedNeXtBlock_grn_def val_torch_sel ratio par xn g1 g2 ew2_zero_add rep)
qed

lemma bcast_rev_length:
  "bcast_rev xs ys = Some r \<Longrightarrow> length r = max (length xs) (length ys)"
  by (induction xs ys arbitrary: r rule: bcast_rev.induct) (auto split: if_splits)

lemma broadcast_length:
  "broadcast_shapes a b = Inr s \<Longrightarrow> length s = max (length a) (length b)"
  by (auto simp: broadcast_shapes_def split: option.splits dest: bcast_rev_length)

lemma ew2_length:
  "ew2 f a b = Inr r \<Longrightarrow> length (shape r) = max (length (shape a)) (length (shape b))"
  by (auto simp: ew2_def elim!: bindE_InrE dest: broadcast_length)

lemma val_mean1_length: "val_mean1 x = Inr y \<Longrightarrow> length (shape y) = length (shape x)"
  by (auto simp: val_mean1_def shape_mean1_def split: if_splits elim!: bindE_InrE)

lemma val_index_none3_length:
  "val_index_none3 w = Inr y \<Longrightarrow> length (shape w) = 1 \<Longrightarrow> length (shape y) = 4"
  by (cases "shape w") (auto simp: val_index_none3_def elim!: bindE_InrE)

lemma LayerNorm_forward_rank:
  assumes "LayerNorm_forward (val_torch V) lnm x = Inr (Some y)"
    and "data_format lnm = ''channels_first''"
    and "length (shape (weight lnm)) = 1" "length (shape (bias lnm)) = 1"
    and "4 \<le> length (shape x)"
  shows "length (shape y) = length (shape x)"
  using assms
  by (auto simp: LayerNorm_forward_def val_torch_sel elim!: bindE_InrE
      dest!: ew2_length val_mean1_length val_index_none3_length)

lemma shape_group_norm_same: "shape_group_norm g s = Inr s' \<Longrightarrow> s' = s"
  by (cases "(g, s)" rule: shape_group_norm.cases) (auto split: if_splits)

lemma norm_call_rank:
  assumes "norm_call (val_torch V) nl x = Inr y"
    and "block_norm (val_torch V) nt c = Inr (Some nl)"
    and "4 \<le> length (shape x)"
  shows "length (shape y) = length (shape x)"
proof (cases nl)
  case (NormGroup g)
  with assms(1) show ?thesis
    by (auto simp: norm_call_def val_torch_def elim!: bindE_InrE dest: shape_group_norm_same)
next
  case (NormLayer lnm)
  with assms(2) have l: "data_format lnm = ''channels_first''"
    "length (shape (weight lnm)) = 1" "length (shape (bias lnm)) = 1"
    by (auto simp: block_norm_def LayerNorm_init_def val_torch_sel split: if_splits
        elim!: bindE_InrE)
  from assms(1) NormLayer have "LayerNorm_forward (val_torch V) lnm x = Inr (Some y)"
    by (auto simp: norm_call_def split: option.splits elim!: bindE_InrE)
  from LayerNorm_forward_rank [OF this l assms(3)] show ?thesis .
qed

lemma mapE_length: "mapE f xs = Inr ys \<Longrightarrow> length ys = length xs"
  by (induction xs arbitrary: ys) (auto elim!: bindE_InrE)

lemma shape_conv_batched_result:
  assumes "shape_conv c s = Inr s'" and "length s = ndim c + 2"
  obtains n sp where "s' = n # c_out c # sp" "length sp = ndim c"
proof -
  from assms obtain sp' where "mapE (conv_axis c) (drop 2 s) = Inr sp'"
    "s' = hd s # c_out c # sp'"
    by (auto simp: shape_conv_def split: if_splits elim!: bindE_InrE)
  with assms(2) mapE_length [OF this(1)] that show ?thesis by simp
qed

lemma bindE_cong_strong: "(\<And>v. m = Inr v \<Longrightarrow> f v = g v) \<Longrightarrow> bindE m f = bindE m g"
  by (cases m) simp_all

lemma length_2E: "length sp = 2 \<Longrightarrow> (\<And>h w. sp = [h, w] \<Longrightarrow> P) \<Longrightarrow> P"
  by (cases sp; cases "tl sp"; cases "tl (tl sp)") auto

lemma length_3E: "length sp = 3 \<Longrightarrow> (\<And>d h w. sp = [d, h, w] \<Longrightarrow> P) \<Longrightarrow> P"
  by (cases sp; cases "tl sp"; cases "tl (tl sp)"; cases "tl (tl (tl sp))") auto

lemma expand_result:
  assumes A: "MedNeXtBlock_init (val_torch V) cin cout er k res nt ng dm g = Inr A"
    and rank: "length (shape x) = (if dm = ''2d'' then 4 else 5)"
    and ex: "MedNeXtBlock_expand (val_torch V) A x = Inr x1"
  obtains n sp f where "x1 = mk (n # er * cin # sp) f"
    "length sp = (if dm = ''2d'' then 2 else 3)" "\<And>i. to_float (f i) = f i"
proof -
  let ?T = "val_torch V"
  let ?nd = "if dm = ''2d'' then 2 else 3 :: nat"
  from A have dm: "dm = ''2d'' \<or> dm = ''3d''"
    and nd: "ndim (conv1 A) = ?nd"
    and c2: "conv2 A = \<lparr>transposed = False, ndim = ?nd, c_in = cin, c_out = er * cin,
                         ksize = 1, stride = 1, padding = 0, groups = 1\<rparr>"
    and bn: "block_norm ?T nt cin = Inr (norm_l A)"
    by (auto simp: MedNeXtBlock_init_def conv_of_dim_def nn_Conv_def
        split: if_splits elim!: bindE_InrE)
  from ex obtain a nl b y where
    a: "t_conv ?T ''conv1'' (conv1 A) x = Inr a"
    and nl: "norm_l A = Some nl"
    and b: "norm_call ?T nl a = Inr b"
    and y: "t_conv ?T ''conv2'' (conv2 A) b = Inr y"
    and x1: "x1 = t_gelu ?T y"
    by (auto simp: MedNeXtBlock_expand_def getattr_def split: option.splits elim!: bindE_InrE)
  from a obtain s1 where s1: "shape_conv (conv1 A) (shape x) = Inr s1" "shape a = s1"
    by (auto simp: val_torch_sel elim!: bindE_InrE)
  from s1(1) have "length s1 = ?nd + 2"
    by (rule shape_conv_batched_result) (use rank dm nd in auto)
  with s1 have ra: "length (shape a) = ?nd + 2" by simp
  have rb: "length (shape b) = ?nd + 2"
    using norm_call_rank [OF b bn [unfolded nl]] ra dm by auto
  from y obtain s2 where s2: "shape_conv (conv2 A) (shape b) = Inr s2" "shape y = s2"
    by (auto simp: val_torch_sel elim!: bindE_InrE)
  from s2(1) obtain n sp where sp: "s2 = n # er * cin # sp" "length sp = ?nd"
    by (rule shape_conv_batched_result) (use rb in \<open>simp_all add: c2\<close>)
  have "x1 = mk (n # er * cin # sp) (\<lambda>i. to_float (gelu_v V (elems y i)))"
    by (simp add: x1 val_torch_sel ew1_def s2 sp)
  then show ?thesis
    using sp(2) by (rule that) simp
qed

lemma all_finite_mkI: "(\<And>i. valid_index s i \<Longrightarrow> is_fin (f i)) \<Longrightarrow> all_finite (mk s f)"
  by (auto simp: all_finite_def list_all_iff elems_mk)

lemma valid_index_Cons [simp]:
  "valid_index (n # s) i = (\<exists>k j. i = k # j \<and> k < n \<and> valid_index s j)"
  by (cases i) (auto simp: valid_index_def)

lemma valid_index_Nil [simp]: "valid_index [] i = (i = [])"
  by (auto simp: valid_index_def)

lemma ovf_vals:
  "ovf 1 = Fin 1" "ovf (1000001 / 1000000) = Fin (1000001 / 1000000)"
  "ovf (1000000 / 1000001) = Fin (1000000 / 1000001)"
  "ovf (3 * 10 ^ 38) = Fin (3 * 10 ^ 38)" "ovf (9 * 10 ^ 76) = PInf"
  by (simp_all add: ovf_def float_max_def)

lemma unit_expand:
  assumes A: "MedNeXtBlock_init (val_torch unit_values) 1 1 1 3 False ''group'' None ''3d'' True = Inr A"
  shows "MedNeXtBlock_expand (val_torch unit_values) A (mk [2, 1, 1, 1, 1] (\<lambda>i. Fin 3))
           = Inr (mk [2, 1, 1, 1, 1] (\<lambda>i. Fin 1))"
proof -
  note f = block_init_fields [OF A]
  show ?thesis
    by (auto simp: MedNeXtBlock_expand_def f norm_call_def val_torch_sel conv_axis_def ew1_def
        unit_values_def elems_mk ovf_vals intro!: mk_cong)
qed

lemma indices_1 [simp]: "indices [Suc 0, Suc 0, Suc 0] = [[0, 0, 0]]"
  by simp

lemma unit_ratio:
  assumes A: "MedNeXtBlock_init (val_torch unit_values) 1 1 1 3 False ''group'' None ''3d'' True = Inr A"
  shows "MedNeXtBlock_grn_ratio (val_torch unit_values) A (mk [2, 1, 1, 1, 1] (\<lambda>i. Fin 1))
           = Inr (mk [2, 1, 1, 1, 1] (\<lambda>i. Fin (1000000 / 1000001)))"
proof -
  note f = block_init_fields [OF A]
  have n: "val_norm 3 (mk [2, Suc 0, Suc 0, Suc 0, Suc 0] (\<lambda>i. Fin 1)) = Inr (mk [2, Suc 0, Suc 0, Suc 0, Suc 0] (\<lambda>i. Fin 1))"
    by (auto simp: val_norm_def elems_mk fl_sum_def ovf_vals intro!: mk_cong)
  have m: "val_mean1 (mk [2, Suc 0, Suc 0, Suc 0, Suc 0] (\<lambda>i. Fin 1)) = Inr (mk [2, Suc 0, Suc 0, Suc 0, Suc 0] (\<lambda>i. Fin 1))"
    by (auto simp: val_mean1_def elems_mk fl_sum_def ovf_vals intro!: mk_cong)
  have a: "ew1 (\<lambda>v. fl_add v (Fin (1 / 1000000))) (mk [2, Suc 0, Suc 0, Suc 0, Suc 0] (\<lambda>i. Fin 1))
             = mk [2, Suc 0, Suc 0, Suc 0, Suc 0] (\<lambda>i. Fin (1000001 / 1000000))"
    by (auto simp: ew1_def elems_mk ovf_vals intro!: mk_cong)
  have d: "ew2 fl_div (mk [2, Suc 0, Suc 0, Suc 0, Suc 0] (\<lambda>i. Fin 1))
             (mk [2, Suc 0, Suc 0, Suc 0, Suc 0] (\<lambda>i. Fin (1000001 / 1000000)))
           = Inr (mk [2, Suc 0, Suc 0, Suc 0, Suc 0] (\<lambda>i. Fin (1000000 / 1000001)))"
    by (auto simp: ew2_def elems_mk bidx_def ovf_vals intro!: mk_cong)
  show ?thesis
    by (simp add: MedNeXtBlock_grn_ratio_def f val_torch_sel n m a d)
qed

lemma big_value_ovf [simp]: "ovf big_value = Fin big_value" "ovf (big_value * big_value) = PInf"
  by (simp_all add: ovf_def float_max_def big_value_def)

lemma upt_0_2 [simp]: "[0..<2] = [0, Suc 0]"
  by (simp add: eval_nat_numeral upt_rec)

lemmas two = numeral_2_eq_2 [symmetric]

lemma big_expand:
  assumes A: "MedNeXtBlock_init (val_torch big_values) 1 1 1 3 False ''group'' None ''3d'' g = Inr A"
  shows "MedNeXtBlock_expand (val_torch big_values) A (mk [1, 1, 2, 1, 1] (\<lambda>i. Fin 1))
           = Inr (mk [1, 1, 2, 1, 1] (\<lambda>i. Fin big_value))"
proof -
  note f = block_init_fields [OF A]
  show ?thesis
    by (auto simp: MedNeXtBlock_expand_def f norm_call_def val_torch_sel conv_axis_def ew1_def
        big_values_def elems_mk two intro!: mk_cong)
qed

lemma big_ratio:
  assumes A: "MedNeXtBlock_init (val_torch big_values) 1 1 1 3 False ''group'' None ''3d'' g = Inr A"
  shows "MedNeXtBlock_grn_ratio (val_torch big_values) A (mk [1, 1, 2, 1, 1] (\<lambda>i. Fin big_value))
           = Inr (mk [1, 1, 1, 1, 1] (\<lambda>i. NaN))"
proof -
  note f = block_init_fields [OF A]
  have dm: "dim_s A = ''3d''" by (simp add: f)
  have n: "val_norm 3 (mk [1, 1, 2, 1, 1] (\<lambda>i. Fin big_value))
             = Inr (mk [1, 1, 1, 1, 1] (\<lambda>i. PInf))"
    by (auto simp: val_norm_def elems_mk fl_sum_def intro!: mk_cong)
  have m: "val_mean1 (mk [1, 1, 1, 1, 1] (\<lambda>i. PInf)) = Inr (mk [1, 1, 1, 1, 1] (\<lambda>i. PInf))"
    by (auto simp: val_mean1_def elems_mk fl_sum_def intro!: mk_cong)
  have a: "ew1 (\<lambda>v. fl_add v (Fin (1 / 1000000))) (mk [1, 1, 1, 1, 1] (\<lambda>i. PInf))
             = mk [1, 1, 1, 1, 1] (\<lambda>i. PInf)"
    by (auto simp: ew1_def elems_mk intro!: mk_cong)
  have d: "ew2 fl_div (mk [1, 1, 1, 1, 1] (\<lambda>i. PInf)) (mk [1, 1, 1, 1, 1] (\<lambda>i. PInf))
           = Inr (mk [1, 1, 1, 1, 1] (\<lambda>i. NaN))"
    by (auto simp: ew2_def elems_mk bidx_def intro!: mk_cong)
  show ?thesis
    unfolding MedNeXtBlock_grn_ratio_def dm val_torch_sel
    by (simp only: refl if_True n bindE_simps m a d)
qed

lemma big_grn:
  assumes A: "MedNeXtBlock_init (val_torch big_values) 1 1 1 3 False ''group'' None ''3d'' True = Inr A"
  shows "MedNeXtBlock_grn (val_torch big_values) A (mk [1, 1, 2, 1, 1] (\<lambda>i. Fin big_value))
           = Inr (mk [1, 1, 2, 1, 1] (\<lambda>i. NaN))"
proof -
  note f = block_init_fields [OF A]
  have par: "grn_gamma A = Some (mk [1, 1, 1, 1, 1] (\<lambda>i. Fin 0))"
    "grn_beta A = Some (mk [1, 1, 1, 1, 1] (\<lambda>i. Fin 0))"
    by (simp_all add: f grn_param_def val_torch_sel)
  have x: "ew2 fl_mul (mk [1, 1, 2, 1, 1] (\<lambda>i. Fin big_value)) (mk [1, 1, 1, 1, 1] (\<lambda>i. NaN))
           = Inr (mk [1, 1, 2, 1, 1] (\<lambda>i. NaN))"
    by (auto simp: ew2_def elems_mk bidx_def broadcast_shapes_def two intro!: mk_cong)
  have g: "ew2 fl_mul (mk [1, 1, 1, 1, 1] (\<lambda>i. Fin 0)) (mk [1, 1, 2, 1, 1] (\<lambda>i. NaN))
           = Inr (mk [1, 1, 2, 1, 1] (\<lambda>i. NaN))"
    by (auto simp: ew2_def elems_mk bidx_def broadcast_shapes_def two intro!: mk_cong)
  have b: "ew2 fl_add (mk [1, 1, 2, 1, 1] (\<lambda>i. NaN)) (mk [1, 1, 1, 1, 1] (\<lambda>i. Fin 0))
           = Inr (mk [1, 1, 2, 1, 1] (\<lambda>i. NaN))"
    by (auto simp: ew2_def elems_mk bidx_def broadcast_shapes_def two intro!: mk_cong)
  have c: "ew2 fl_add (mk [1, 1, 2, 1, 1] (\<lambda>i. NaN)) (mk [1, 1, 2, 1, 1] (\<lambda>i. Fin big_value))
           = Inr (mk [1, 1, 2, 1, 1] (\<lambda>i. NaN))"
    by (auto simp: ew2_def elems_mk bidx_def broadcast_shapes_def two intro!: mk_cong)
  show ?thesis
    unfolding MedNeXtBlock_grn_def big_ratio [OF A] val_torch_sel par
    by (simp only: bindE_simps getattr_simps x g b c)
qed

lemma length_4E:
  "length s = 4 \<Longrightarrow> (\<And>a b h w. s = [a, b, h, w] \<Longrightarrow> P) \<Longrightarrow> P"
  by (cases s; cases "tl s"; cases "tl (tl s)"; cases "tl (tl (tl s))";
      cases "tl (tl (tl (tl s)))") auto

lemma length_5E:
  "length s = 5 \<Longrightarrow> (\<And>a b d h w. s = [a, b, d, h, w] \<Longrightarrow> P) \<Longrightarrow> P"
  by (cases s; cases "tl s"; cases "tl (tl s)"; cases "tl (tl (tl s))";
      cases "tl (tl (tl (tl s)))"; cases "tl (tl (tl (tl (tl s))))") auto

lemma up_pad_leading3:
  assumes "length (shape x) = 5"
  shows "\<exists>y. up_pad (val_torch V) ''3d'' x = Inr y
           \<and> shape y = take 2 (shape x) @ map Suc (drop 2 (shape x))
           \<and> (\<forall>i. valid_index (shape y) i \<longrightarrow>
                 elems y i = (if 0 \<in> set (drop 2 i) then Fin 0
                              else elems x (take 2 i @ map (\<lambda>k. k - 1) (drop 2 i))))"
proof -
  from assms obtain a b d h w where s: "shape x = [a, b, d, h, w]"
    by (rule length_5E)
  show ?thesis
    by (auto simp: up_pad_def val_torch_sel val_pad_def shape_pad_def s elems_mk)
qed

lemma up_pad_leading2:
  assumes "length (shape x) = 4"
  shows "\<exists>y. up_pad (val_torch V) ''2d'' x = Inr y
           \<and> shape y = take 2 (shape x) @ map Suc (drop 2 (shape x))
           \<and> (\<forall>i. valid_index (shape y) i \<longrightarrow>
                 elems y i = (if 0 \<in> set (drop 2 i) then Fin 0
                              else elems x (take 2 i @ map (\<lambda>k. k - 1) (drop 2 i))))"
proof -
  from assms obtain a b h w where s: "shape x = [a, b, h, w]"
    by (rule length_4E)
  show ?thesis
    by (auto simp: up_pad_def val_torch_sel val_pad_def shape_pad_def s elems_mk)
qed

text \<open>
  On an unbatched input \<open>(C, D, H, W)\<close>, which the convolutions accept, the parameters
  of the recalibration, of shape \<open>(1, C, 1, 1, 1)\<close>, broadcast a leading axis into the
  result: the block with recalibration returns a shape \<open>(1, C, D, H, W)\<close> where the
  block without returns \<open>(C, D, H, W)\<close>.  Feature maps are batched in what follows.
\<close>

lemma recalibration_unbatched_adds_axis:
  "bindE (MedNeXtBlock_init shape_torch 2 2 1 3 False ''group'' None ''3d'' True)
     (\<lambda>A. MedNeXtBlock_forward shape_torch A [2, 2, 2, 2]) = Inr [1, 2, 2, 2, 2]
   \<and> bindE (MedNeXtBlock_init shape_torch 2 2 1 3 False ''group'' None ''3d'' False)
       (\<lambda>B. MedNeXtBlock_forward shape_torch B [2, 2, 2, 2]) = Inr [2, 2, 2, 2]"
proof -
  obtain sA where
    sA: "MedNeXtBlock_init shape_torch 2 2 1 3 False ''group'' None ''3d'' True = Inr sA"
    by (simp add: init_defs)
  obtain sB where
    sB: "MedNeXtBlock_init shape_torch 2 2 1 3 False ''group'' None ''3d'' False = Inr sB"
    by (simp add: init_defs)
  note gA = block_init_fields [OF sA]
  note gB = block_init_fields [OF sB]
  have n3: "shape_norm 3 [2, 2, 2, 2] = Inr [2, Suc 0, Suc 0, Suc 0]"
    by (simp add: shape_norm_def eval_nat_numeral)
  have eA: "MedNeXtBlock_expand shape_torch sA [2, 2, 2, 2] = Inr [2, 2, 2, 2]"
    by (simp add: MedNeXtBlock_expand_def gA norm_call_def conv_axis_def)
  have eB: "MedNeXtBlock_expand shape_torch sB [2, 2, 2, 2] = Inr [2, 2, 2, 2]"
    by (simp add: MedNeXtBlock_expand_def gB norm_call_def conv_axis_def)
  have gr: "MedNeXtBlock_grn shape_torch sA [2, 2, 2, 2] = Inr [Suc 0, 2, 2, 2, 2]"
    by (simp add: MedNeXtBlock_grn_def MedNeXtBlock_grn_ratio_def gA n3 grn_param_def
        shape_mean1_def broadcast_shapes_def)
  have 3: "MedNeXtBlock_forward shape_torch sA [2, 2, 2, 2] = Inr [1, 2, 2, 2, 2]"
    by (simp add: MedNeXtBlock_forward_def eA gr gA conv_axis_def)
  have 4: "MedNeXtBlock_forward shape_torch sB [2, 2, 2, 2] = Inr [2, 2, 2, 2]"
    by (simp add: MedNeXtBlock_forward_def eB gB conv_axis_def)
  show ?thesis
    unfolding sA sB bindE_simps 3 4 by simp
qed

lemma MedNeXt_forward_never_returns:
  assumes "MedNeXt_init T inc c ncls exp_r ks eks dks ds res rud cs bcs nt dm g = Inr net"
  shows "MedNeXt_forward T net x \<noteq> Inr r"
proof -
  from assms obtain ks' where
    "MedNeXtEncoder_init T inc c exp_r ks' res rud cs bcs nt dm g = Inr (encoder net)"
    by (auto simp: MedNeXt_init_def elim!: bindE_InrE)
  from encoder_forward_never_returns [OF this] show ?thesis
    by (auto simp: MedNeXt_forward_def elim!: bindE_InrE)
qed

lemma decoder_return_type:
  assumes "MedNeXtDecoder_forward T dec x skips = Inr r"
  shows "if do_ds dec then (\<exists>os. r = Multi os \<and> length os = 5) else (\<exists>y. r = Single y)"
  using assms
  by (auto simp: MedNeXtDecoder_forward_def split: if_splits option.splits prod.splits
      elim!: bindE_InrE)

section \<open>Claims\<close>

text \<open>
  C1.  The claim: the network \<^verbatim>\<open>MedNeXt(in_channels=1, n_channels=32, n_classes=3,
  kernel_size=3, deep_supervision=True, block_counts=[2]*9, dim='3d')\<close> (the other
  arguments at their defaults), called on an input of shape \<open>(1, 1, 64, 64, 64)\<close>,
  returns 5 tensors.  The code: \<open>forward\<close> raises AttributeError and returns nothing.
  The encoder runs all its stages and then reads \<open>self.return_skips\<close>, which no
  constructor assigns.
\<close>

theorem MedNeXt_forward_raises_on_64_cube:
  "bindE (MedNeXt_init shape_torch 1 32 3 (ExpInt 4) (Some 3) None None True False False None
            [2, 2, 2, 2, 2, 2, 2, 2, 2] ''group'' ''3d'' False)
     (\<lambda>net. MedNeXt_forward shape_torch net [1, 1, 64, 64, 64]) = Inl AttributeError"
proof -
  obtain net where
    net: "MedNeXt_init shape_torch 1 32 3 (ExpInt 4) (Some 3) None None True False False None
            [2, 2, 2, 2, 2, 2, 2, 2, 2] ''group'' ''3d'' False = Inr net"
    by (simp add: net_init_defs)
  note e = encoder_init_fields [OF net_init_fields(1) [OF net]]
  have "MedNeXtEncoder_forward shape_torch ((encoder net)\<lparr>return_skips := None\<rparr>)
          [1, 1, 16 * 4, 16 * 4, 16 * 4] = Inl AttributeError"
    by (subst encoder_forward3 [OF _ e(3-10)]) (simp_all add: e exp_r_list_def)
  then have enc: "MedNeXtEncoder_forward shape_torch (encoder net) [1, 1, 64, 64, 64]
          = Inl AttributeError"
    using e(1) by (simp add: record_none)
  show ?thesis
    unfolding net bindE_simps MedNeXt_forward_def enc ..
qed

text \<open>
  C2.  The claim: for every valid input, \<^verbatim>\<open>MedNeXtEncoder.forward\<close> produces the
  sequence of 5 feature maps.  The code: \<open>forward\<close> builds that sequence and then reads
  \<open>self.return_skips\<close>, an attribute that the constructor never assigns, so the call
  raises AttributeError.  Evaluated on an encoder with the default arguments and an input
  of shape \<open>(1, 1, 64, 64, 64)\<close>:
\<close>

theorem MedNeXtEncoder_forward_raises:
  "bindE (MedNeXtEncoder_init shape_torch 1 32 (ExpInt 4) (Some 7) False False None
            [2, 2, 2, 2, 2, 2, 2, 2, 2] ''group'' ''3d'' False)
     (\<lambda>enc. MedNeXtEncoder_forward shape_torch enc [1, 1, 64, 64, 64]) = Inl AttributeError"
proof -
  obtain enc where
    enc: "MedNeXtEncoder_init shape_torch 1 32 (ExpInt 4) (Some 7) False False None
            [2, 2, 2, 2, 2, 2, 2, 2, 2] ''group'' ''3d'' False = Inr enc"
    by (simp add: net_init_defs)
  note e = encoder_init_fields [OF enc]
  have "MedNeXtEncoder_forward shape_torch (enc\<lparr>return_skips := None\<rparr>)
          [1, 1, 16 * 4, 16 * 4, 16 * 4] = Inl AttributeError"
    by (subst encoder_forward3 [OF _ e(3-10)]) (simp_all add: e exp_r_list_def)
  then have fw: "MedNeXtEncoder_forward shape_torch enc [1, 1, 64, 64, 64] = Inl AttributeError"
    using e(1) by (simp add: record_none)
  show ?thesis
    unfolding enc bindE_simps fw ..
qed

text \<open>
  C3.  The claim: \<^verbatim>\<open>MedNeXtDecoder.forward\<close>, and hence \<^verbatim>\<open>MedNeXt.forward\<close>, returns
  a single logit tensor when deep supervision is disabled and a list of 5 when it is
  enabled.  The code: \<^verbatim>\<open>MedNeXt.forward\<close> with deep supervision disabled, on an input
  of shape \<open>(2, 1, 32, 32, 32)\<close>, raises AttributeError in the encoder (the unassigned
  \<open>return_skips\<close> again) before the decoder is reached; it returns neither a tensor nor
  a list.
\<close>

theorem MedNeXt_forward_raises_without_deep_supervision:
  "bindE (MedNeXt_init shape_torch 1 32 3 (ExpInt 4) (Some 3) None None False False False None
            [2, 2, 2, 2, 2, 2, 2, 2, 2] ''group'' ''3d'' False)
     (\<lambda>net. MedNeXt_forward shape_torch net [2, 1, 32, 32, 32]) = Inl AttributeError"
proof -
  obtain net where
    net: "MedNeXt_init shape_torch 1 32 3 (ExpInt 4) (Some 3) None None False False False None
            [2, 2, 2, 2, 2, 2, 2, 2, 2] ''group'' ''3d'' False = Inr net"
    by (simp add: net_init_defs)
  note e = encoder_init_fields [OF net_init_fields(1) [OF net]]
  have "MedNeXtEncoder_forward shape_torch ((encoder net)\<lparr>return_skips := None\<rparr>)
          [2, 1, 16 * 2, 16 * 2, 16 * 2] = Inl AttributeError"
    by (subst encoder_forward3 [OF _ e(3-10)]) (simp_all add: e exp_r_list_def)
  then have enc: "MedNeXtEncoder_forward shape_torch (encoder net) [2, 1, 32, 32, 32]
          = Inl AttributeError"
    using e(1) by (simp add: record_none)
  show ?thesis
    unfolding net bindE_simps MedNeXt_forward_def enc ..
qed

text \<open>
  The outputs of the decoder under deep supervision, for a bottleneck of spatial shape
  \<open>(2, 3, 4)\<close>: the spatial extents fall from the first element to the last, and the
  first element does not have the spatial shape of the bottleneck.
\<close>

theorem MedNeXtDecoder_outputs_not_coarsest_first:
  "bindE (MedNeXtDecoder_init shape_torch 1 16 2 (ExpInt 2) (Some 5) True True True None
            [2, 2, 2, 2, 2, 2, 2, 2, 2] ''group'' ''3d'' False)
     (\<lambda>dec. MedNeXtDecoder_forward shape_torch dec [1, 256, 2, 3, 4]
              (Multi [[1, 128, 4, 6, 8], [1, 64, 8, 12, 16], [1, 32, 16, 24, 32],
                      [1, 16, 32, 48, 64]]))
     = Inr (Multi [[1, 2, 32, 48, 64], [1, 2, 16, 24, 32], [1, 2, 8, 12, 16], [1, 2, 4, 6, 8],
                   [1, 2, 2, 3, 4]])
   \<and> \<not> coarsest_first [[1, 2, 32, 48, 64], [1, 2, 16, 24, 32], [1, 2, 8, 12, 16],
                         [1, 2, 4, 6, 8], [1, 2, 2, 3, 4]]
   \<and> spatial [1, 2, 32, 48, 64] \<noteq> spatial [1, 256, 2, 3, 4]"
proof -
  obtain dec where
    dec: "MedNeXtDecoder_init shape_torch 1 16 2 (ExpInt 2) (Some 5) True True True None
            [2, 2, 2, 2, 2, 2, 2, 2, 2] ''group'' ''3d'' False = Inr dec"
    by (simp add: net_init_defs)
  have "MedNeXtDecoder_forward shape_torch dec [1, 16 * 16, 2, 3, 4]
          (Multi [[1, 8 * 16, 2 * 2, 2 * 3, 2 * 4], [1, 4 * 16, 4 * 2, 4 * 3, 4 * 4],
                  [1, 2 * 16, 8 * 2, 8 * 3, 8 * 4], [1, 16, 16 * 2, 16 * 3, 16 * 4]])
        = Inr (if True then
                 Multi [[1, 2, 16 * 2, 16 * 3, 16 * 4], [1, 2, 8 * 2, 8 * 3, 8 * 4],
                        [1, 2, 4 * 2, 4 * 3, 4 * 4], [1, 2, 2 * 2, 2 * 3, 2 * 4], [1, 2, 2, 3, 4]]
               else Single [1, 2, 16 * 2, 16 * 3, 16 * 4])"
    by (rule decoder_forward3 [OF dec]) (simp_all add: exp_r_list_def)
  then have fw: "MedNeXtDecoder_forward shape_torch dec [1, 256, 2, 3, 4]
              (Multi [[1, 128, 4, 6, 8], [1, 64, 8, 12, 16], [1, 32, 16, 24, 32],
                      [1, 16, 32, 48, 64]])
     = Inr (Multi [[1, 2, 32, 48, 64], [1, 2, 16, 24, 32], [1, 2, 8, 12, 16], [1, 2, 4, 6, 8],
                   [1, 2, 2, 3, 4]])"
    by simp
  show ?thesis
    unfolding dec bindE_simps fw by (simp add: spatial_def)
qed

text \<open>
  C4, as amended.  With deep supervision enabled, an odd kernel size, at least one class
  and positive expansion ratios in the decoder's stage slots 4 to 8 (without which the
  decoder raises), the decoder, called on a bottleneck input of spatial extents \<open>sp\<close> and
  on skips of the matching shapes, returns a list of exactly 5 logit maps ordered finest
  first: every spatial extent gets strictly smaller from each element to the next, the
  last element has the spatial shape of the output of the bottleneck stage, and every
  element has \<open>n_classes\<close> channels.
\<close>

theorem MedNeXtDecoder_outputs_finest_first:
  assumes init: "MedNeXtDecoder_init shape_torch inc c ncls exp_r (Some k) True res rud cs bcs
                   nt dm g = Inr dec"
    and k: "odd k"
    and len: "length sp = (if dm = ''2d'' then 2 else 3)"
    and pos: "list_all (\<lambda>s. 0 < s) sp"
    and nt: "nt = ''group'' \<and> n * prod_list sp \<noteq> 1 \<or> nt = ''layer'' \<and> dm = ''3d''"
    and ncls: "0 < ncls"
    and er: "list_all (\<lambda>e. 0 < e) (take 5 (drop 4 (exp_r_list exp_r bcs)))"
  shows "\<exists>os. MedNeXtDecoder_forward shape_torch dec (n # 16 * c # sp)
                (Multi [n # 8 * c # map ((*) 2) sp, n # 4 * c # map ((*) 4) sp,
                        n # 2 * c # map ((*) 8) sp, n # c # map ((*) 16) sp])
              = Inr (Multi os)
            \<and> length os = 5
            \<and> finest_first os
            \<and> Sequential_forward shape_torch (bottleneck dec) (n # 16 * c # sp)
                = Inr (n # 16 * c # sp)
            \<and> spatial (last os) = sp
            \<and> list_all (\<lambda>t. channels t = Some ncls) os"
proof (cases "dm = ''3d''")
  case True
  with len obtain d h w where sp: "sp = [d, h, w]"
    by (cases sp; cases "tl sp"; cases "tl (tl sp)"; cases "tl (tl (tl sp))") auto
  from pos sp have p: "0 < d" "0 < h" "0 < w" by auto
  from nt sp have grp: "nt = ''group'' \<Longrightarrow> n * (d * h * w) \<noteq> 1"
    by (auto simp: mult.assoc)
  have nt': "nt = ''group'' \<or> nt = ''layer''" using nt by auto
  note i = init [unfolded True]
  have e4: "4 < length (exp_r_list exp_r bcs) \<Longrightarrow> 0 < exp_r_list exp_r bcs ! 4"
    using list_all_take_drop_nth [OF er, of 4] by simp
  have bn: "Sequential_forward shape_torch (bottleneck dec) [n, 16 * c, d, h, w]
              = Inr [n, 16 * c, d, h, w]"
    using sequence_forward3 [OF decoder_init_fields(2) [OF i] k nt' p, of n] grp e4
    by (auto simp: mult.commute)
  show ?thesis
    using decoder_forward3 [OF i k nt' p, of n] grp ncls er bn p
    by (simp add: sp spatial_def channels_def)
next
  case False
  with decoder_init_fields(16) [OF init] have d2: "dm = ''2d''" by simp
  with len obtain h w where sp: "sp = [h, w]"
    by (cases sp; cases "tl sp"; cases "tl (tl sp)") auto
  from pos sp have p: "0 < h" "0 < w" by auto
  from nt d2 have g: "nt = ''group''" by auto
  from nt d2 sp have grp: "n * (h * w) \<noteq> 1"
    by (auto simp: mult.assoc)
  note i = init [unfolded d2 g]
  have e4: "4 < length (exp_r_list exp_r bcs) \<Longrightarrow> 0 < exp_r_list exp_r bcs ! 4"
    using list_all_take_drop_nth [OF er, of 4] by simp
  have bn: "Sequential_forward shape_torch (bottleneck dec) [n, 16 * c, h, w]
              = Inr [n, 16 * c, h, w]"
    using sequence_forward2 [OF decoder_init_fields(2) [OF i] k p, of n] grp e4
    by (auto simp: mult.commute)
  show ?thesis
    using decoder_forward2 [OF i k p, of n] grp ncls er bn p
    by (simp add: sp spatial_def channels_def)
qed

theorem MedNeXtDecoder_outputs_finest_first_witness:
  "\<exists>os. bindE (MedNeXtDecoder_init shape_torch 1 32 3 (ExpList [2, 3, 4, 4, 4, 4, 4, 3, 2])
                 (Some 3) True True True (Some ''outside_block'')
                 [3, 4, 4, 4, 4, 4, 4, 4, 3] ''group'' ''2d'' True)
          (\<lambda>dec. MedNeXtDecoder_forward shape_torch dec [2, 512, 5, 7]
                   (Multi [[2, 256, 10, 14], [2, 128, 20, 28], [2, 64, 40, 56],
                           [2, 32, 80, 112]])) = Inr (Multi os)
        \<and> length os = 5 \<and> finest_first os \<and> spatial (last os) = [5, 7]"
proof -
  obtain dec where
    dec: "MedNeXtDecoder_init shape_torch 1 32 3 (ExpList [2, 3, 4, 4, 4, 4, 4, 3, 2])
            (Some 3) True True True (Some ''outside_block'')
            [3, 4, 4, 4, 4, 4, 4, 4, 3] ''group'' ''2d'' True = Inr dec"
    by (simp add: net_init_defs)
  have "\<exists>os. MedNeXtDecoder_forward shape_torch dec (2 # 16 * 32 # [5, 7])
                (Multi [2 # 8 * 32 # map ((*) 2) [5, 7], 2 # 4 * 32 # map ((*) 4) [5, 7],
                        2 # 2 * 32 # map ((*) 8) [5, 7], 2 # 32 # map ((*) 16) [5, 7]])
              = Inr (Multi os)
            \<and> length os = 5
            \<and> finest_first os
            \<and> Sequential_forward shape_torch (bottleneck dec) (2 # 16 * 32 # [5, 7])
                = Inr (2 # 16 * 32 # [5, 7])
            \<and> spatial (last os) = [5, 7]
            \<and> list_all (\<lambda>t. channels t = Some 3) os"
    by (rule MedNeXtDecoder_outputs_finest_first [OF dec]) (simp_all add: exp_r_list_def)
  then show ?thesis
    unfolding dec bindE_simps by auto
qed

text \<open>
  C5.  The claim: constructing a MedNeXtBlock with a normalisation kind other than
  \<open>'group'\<close> or \<open>'layer'\<close> fails in the constructor.  The code: for \<open>norm_type = 'batch'\<close>
  the constructor returns a block whose attribute \<open>norm\<close> was never assigned, and the
  failure comes only when \<open>forward\<close> reads that attribute.
\<close>

theorem MedNeXtBlock_unsupported_norm_deferred:
  "MedNeXtBlock_init shape_torch 4 4 4 7 True ''batch'' None ''3d'' False
     = Inr \<lparr>do_res = True, dim_s = ''3d'',
            conv1 = \<lparr>transposed = False, ndim = 3, c_in = 4, c_out = 4, ksize = 7,
                      stride = 1, padding = 3, groups = 4\<rparr>,
            norm_l = None,
            conv2 = \<lparr>transposed = False, ndim = 3, c_in = 4, c_out = 16, ksize = 1,
                      stride = 1, padding = 0, groups = 1\<rparr>,
            conv3 = \<lparr>transposed = False, ndim = 3, c_in = 16, c_out = 4, ksize = 1,
                      stride = 1, padding = 0, groups = 1\<rparr>,
            grn = False, grn_beta = None, grn_gamma = None\<rparr>
   \<and> bindE (MedNeXtBlock_init shape_torch 4 4 4 7 True ''batch'' None ''3d'' False)
         (\<lambda>b. MedNeXtBlock_forward shape_torch b [1, 4, 8, 8, 8]) = Inl AttributeError"
  by (simp add: init_defs MedNeXtBlock_forward_def MedNeXtBlock_expand_def conv_axis_def)

text \<open>
  C6.  The claim: for 4-dimensional input as for 5-dimensional input, LayerNorm in
  \<open>channels_first\<close> mode scales and shifts per channel, so the output has the shape of
  the input.  The code indexes \<^verbatim>\<open>self.weight[:, None, None, None]\<close>, of shape
  \<open>(C, 1, 1, 1)\<close>, whose first axis lines up with the batch axis of a 4-dimensional
  input: an input of shape \<open>(1, 2, 1, 1)\<close> gives an output of shape \<open>(2, 2, 1, 1)\<close>, and
  an input of shape \<open>(2, 3, 4, 4)\<close> raises.
\<close>

theorem LayerNorm_channels_first_4d_misaligned:
  "bindE (LayerNorm_init shape_torch 2 (1 / 100000) ''channels_first'')
     (\<lambda>l. LayerNorm_forward shape_torch l [1, 2, 1, 1]) = Inr (Some [2, 2, 1, 1])
   \<and> bindE (LayerNorm_init shape_torch 3 (1 / 100000) ''channels_first'')
       (\<lambda>l. LayerNorm_forward shape_torch l [2, 3, 4, 4]) = Inl RuntimeError"
  by (simp add: init_defs LayerNorm_forward_def broadcast_shapes_def)







text \<open>
  C9.  The claim: the network built with \<open>checkpoint_style = 'outside_block'\<close> produces
  a forward output identical to that of the network built with \<open>checkpoint_style = None\<close>,
  the checkpointing changing only memory and timing.  The code, for the network of the
  trainer \<^verbatim>\<open>nnUNetTrainer_MedNeXt_M_kernel3\<close> on an input of shape
  \<open>(1, 1, 64, 64, 64)\<close>: with either style \<open>forward\<close> raises AttributeError (the
  unassigned \<open>return_skips\<close>) and produces no output; no \<open>forward\<close> reads the flag that
  the style sets, so no block is ever called through a checkpoint; and the method meant
  for that, \<open>iterative_checkpoint\<close>, called on the first stage of the encoder, raises
  AttributeError on \<open>self.dummy_tensor\<close>.
\<close>

theorem MedNeXt_outside_block_forward_raises:
  "bindE (MedNeXt_init shape_torch 1 32 3 (ExpList [2, 3, 4, 4, 4, 4, 4, 3, 2]) (Some 3) None None
            True True True (Some ''outside_block'') [3, 4, 4, 4, 4, 4, 4, 4, 3] ''group'' ''3d''
            False)
     (\<lambda>net. MedNeXt_forward shape_torch net [1, 1, 64, 64, 64]) = Inl AttributeError
   \<and> bindE (MedNeXt_init shape_torch 1 32 3 (ExpList [2, 3, 4, 4, 4, 4, 4, 3, 2]) (Some 3) None
              None True True True None [3, 4, 4, 4, 4, 4, 4, 4, 3] ''group'' ''3d'' False)
       (\<lambda>net. MedNeXt_forward shape_torch net [1, 1, 64, 64, 64]) = Inl AttributeError
   \<and> bindE (MedNeXt_init shape_torch 1 32 3 (ExpList [2, 3, 4, 4, 4, 4, 4, 3, 2]) (Some 3) None
              None True True True (Some ''outside_block'') [3, 4, 4, 4, 4, 4, 4, 4, 3] ''group''
              ''3d'' False)
       (\<lambda>net. iterative_checkpoint shape_torch net (enc_block_0 (encoder net))
                [1, 32, 64, 64, 64]) = Inl AttributeError"
proof -
  obtain net_cp where
    cp: "MedNeXt_init shape_torch 1 32 3 (ExpList [2, 3, 4, 4, 4, 4, 4, 3, 2]) (Some 3) None None
            True True True (Some ''outside_block'') [3, 4, 4, 4, 4, 4, 4, 4, 3] ''group'' ''3d''
            False = Inr net_cp"
    by (simp add: net_init_defs)
  obtain net where
    no: "MedNeXt_init shape_torch 1 32 3 (ExpList [2, 3, 4, 4, 4, 4, 4, 3, 2]) (Some 3) None
              None True True True None [3, 4, 4, 4, 4, 4, 4, 4, 3] ''group'' ''3d'' False
           = Inr net"
    by (simp add: net_init_defs)
  note e = encoder_init_fields [OF net_init_fields(1) [OF cp]]
  note e' = encoder_init_fields [OF net_init_fields(1) [OF no]]
  have "MedNeXtEncoder_forward shape_torch ((encoder net_cp)\<lparr>return_skips := None\<rparr>)
          [1, 1, 16 * 4, 16 * 4, 16 * 4] = Inl AttributeError"
    by (subst encoder_forward3 [OF _ e(3-10)]) (simp_all add: e exp_r_list_def)
  then have enc: "MedNeXtEncoder_forward shape_torch (encoder net_cp) [1, 1, 64, 64, 64]
          = Inl AttributeError"
    using e(1) by (simp add: record_none)
  have "MedNeXtEncoder_forward shape_torch ((encoder net)\<lparr>return_skips := None\<rparr>)
          [1, 1, 16 * 4, 16 * 4, 16 * 4] = Inl AttributeError"
    by (subst encoder_forward3 [OF _ e'(3-10)]) (simp_all add: e' exp_r_list_def)
  then have enc': "MedNeXtEncoder_forward shape_torch (encoder net) [1, 1, 64, 64, 64]
          = Inl AttributeError"
    using e'(1) by (simp add: record_none)
  have fl: "outside_block_checkpointing net_cp" "net_dummy_tensor net_cp = None"
    using net_init_fields(3,4) [OF cp] by simp_all
  from e(3) obtain b where "[b, b, b] = enc_block_0 (encoder net_cp)"
    by (auto simp: block_sequence_def py_index_def py_listcomp_def local_kernel_size_def
        exp_r_list_def numeral_3_eq_3 split: sum.splits elim!: bindE_InrE)
  then have b: "enc_block_0 (encoder net_cp) = [b, b, b]"
    by simp
  have ic: "iterative_checkpoint shape_torch net_cp (enc_block_0 (encoder net_cp))
              [1, 32, 64, 64, 64] = Inl AttributeError"
    by (simp add: fl b)
  show ?thesis
    unfolding cp no bindE_simps MedNeXt_forward_def enc enc' ic by simp
qed

text \<open>
  C10.  In every encoder that the constructor builds with \<open>grn = True\<close>, the block
  \<open>down_0\<close> has recalibration disabled and no recalibration parameters, while
  \<open>down_1\<close>, \<open>down_2\<close> and \<open>down_3\<close> have it enabled.
\<close>

theorem MedNeXtEncoder_down_0_without_recalibration:
  assumes "MedNeXtEncoder_init T inc c exp_r ks res rud cs bcs nt dm True = Inr enc"
  shows "\<not> grn (down_0 enc) \<and> grn_gamma (down_0 enc) = None \<and> grn_beta (down_0 enc) = None
         \<and> grn (down_1 enc) \<and> grn (down_2 enc) \<and> grn (down_3 enc)"
proof -
  note f = encoder_init_fields [OF assms]
  from f(4) obtain e0 k0 where
    "MedNeXtDownBlock_init T c (2 * c) e0 k0 rud nt dm False = Inr (down_0 enc)"
    by (rule enc_down_init)
  note d0 = down_init_fields [OF this]
  from f(6) obtain e1 k1 where
    "MedNeXtDownBlock_init T (2 * c) (4 * c) e1 k1 rud nt dm True = Inr (down_1 enc)"
    by (rule enc_down_init)
  note d1 = down_init_fields [OF this]
  from f(8) obtain e2 k2 where
    "MedNeXtDownBlock_init T (4 * c) (8 * c) e2 k2 rud nt dm True = Inr (down_2 enc)"
    by (rule enc_down_init)
  note d2 = down_init_fields [OF this]
  from f(10) obtain e3 k3 where
    "MedNeXtDownBlock_init T (8 * c) (16 * c) e3 k3 rud nt dm True = Inr (down_3 enc)"
    by (rule enc_down_init)
  note d3 = down_init_fields [OF this]
  show ?thesis
    by (simp add: d0 d1 d2 d3 grn_param_def)
qed

theorem MedNeXtEncoder_down_0_without_recalibration_witness:
  "\<exists>enc. MedNeXtEncoder_init shape_torch 1 32 (ExpInt 2) (Some 3) True True None
            [2, 2, 2, 2, 2, 2, 2, 2, 2] ''group'' ''3d'' True = Inr enc
         \<and> \<not> grn (down_0 enc) \<and> grn_gamma (down_0 enc) = None \<and> grn_beta (down_0 enc) = None
         \<and> grn (down_1 enc) \<and> grn (down_2 enc) \<and> grn (down_3 enc)"
proof -
  obtain enc where
    enc: "MedNeXtEncoder_init shape_torch 1 32 (ExpInt 2) (Some 3) True True None
            [2, 2, 2, 2, 2, 2, 2, 2, 2] ''group'' ''3d'' True = Inr enc"
    by (simp add: net_init_defs)
  from MedNeXtEncoder_down_0_without_recalibration [OF enc] enc show ?thesis by blast
qed

end
